theory Spec2Isabelle
  imports Complex_Main
begin

section \<open>JavaScript values\<close>

text \<open>
  The library (\<^verbatim>\<open>src/EasyAria.ts\<close>) wraps a DOM Element and reads and writes its
  \<^verbatim>\<open>aria-*\<close> attributes. Elements are references: the model names them by a handle and
  keeps what the code reads and writes of them (the \<^verbatim>\<open>id\<close> property and the attribute
  list) in an explicit state.

  A JavaScript number is an IEEE double. The model keeps the not-a-number value, the two
  infinities and the finite values as rationals; minus zero is not told apart from zero
  (the two are equal under \<^verbatim>\<open>===\<close> and both print as \<^verbatim>\<open>"0"\<close>).
\<close>

type_synonym handle = nat

datatype jsnum = NaN | PosInf | NegInf | Fin rat

text \<open>
  The values a caller can pass as the second argument of \<^verbatim>\<open>set\<close>. \<open>VObject\<close> stands for
  every other value (a plain object, a function, a symbol): the code tells it apart from
  the others only by \<^verbatim>\<open>typeof\<close>, \<^verbatim>\<open>instanceof\<close> and \<^verbatim>\<open>Array.isArray\<close>.
\<close>

datatype jsval =
    VUndefined
  | VNull
  | VBool bool
  | VNum jsnum
  | VBigInt int
  | VStr string
  | VElement handle
  | VArray "jsval list"
  | VNodeList "handle list"
  | VObject

section \<open>The host's numeric coercions\<close>

text \<open>
  \<^verbatim>\<open>Number(value)\<close> and \<^verbatim>\<open>String(num)\<close> belong to the language, not to the library. The
  model computes them where the result is an integer that a double holds exactly (at most
  \<open>2 ^ 53\<close> in absolute value), on the empty and the blank string, and on the infinities.
  Everything else (fractions, exponents, radix prefixes, longer integers) is left to the
  three functions of a \<open>host\<close>, about which nothing is assumed.
\<close>

record host =
  otherLiteral :: "string \<Rightarrow> jsnum"
  otherBigInt :: "int \<Rightarrow> jsnum"
  otherToString :: "rat \<Rightarrow> string"

definition digit_char :: "nat \<Rightarrow> char" where
  "digit_char d = char_of (48 + d)"

function decimal :: "nat \<Rightarrow> string" where
  "decimal n = (if n < 10 then [digit_char n] else decimal (n div 10) @ [digit_char (n mod 10)])"
  by pat_completeness auto
termination
  by (relation "measure (\<lambda>n. n)") auto

declare decimal.simps [simp del]

definition is_digit :: "char \<Rightarrow> bool" where
  "is_digit c = (48 \<le> (of_char c :: nat) \<and> (of_char c :: nat) \<le> 57)"

definition digit_value :: "char \<Rightarrow> nat" where
  "digit_value c = of_char c - 48"

definition DecimalDigits :: "string \<Rightarrow> nat option" where
  "DecimalDigits s =
     (if s \<noteq> [] \<and> list_all is_digit s
      then Some (foldl (\<lambda>a c. 10 * a + digit_value c) 0 s) else None)"

text \<open>An optionally signed run of decimal digits (the integer part of \<^verbatim>\<open>StrDecimalLiteral\<close>).\<close>

definition StrDecimalInteger :: "string \<Rightarrow> int option" where
  "StrDecimalInteger s =
     (case s of
        [] \<Rightarrow> None
      | c # ds \<Rightarrow>
          if c = CHR ''+'' then map_option int (DecimalDigits ds)
          else if c = CHR ''-'' then map_option (\<lambda>n. - int n) (DecimalDigits ds)
          else map_option int (DecimalDigits s))"

text \<open>
  The white space and line terminators that a character of eight bits can be: TAB, LF, VT,
  FF, CR, SP and the no-break space U+00A0. (The others, such as U+FEFF and U+2028, are
  beyond the characters of a \<open>string\<close> here.)
\<close>

definition StrWhiteSpaceChar :: "char \<Rightarrow> bool" where
  "StrWhiteSpaceChar c = ((of_char c :: nat) \<in> set [9, 10, 11, 12, 13, 32, 160])"

definition trim :: "string \<Rightarrow> string" where
  "trim s = rev (dropWhile StrWhiteSpaceChar (rev (dropWhile StrWhiteSpaceChar s)))"

definition safe_integer :: "int \<Rightarrow> bool" where
  "safe_integer i = (\<bar>i\<bar> \<le> 9007199254740992)"

text \<open>\<^verbatim>\<open>Number(s)\<close> for a string \<open>s\<close>.\<close>

definition StringToNumber :: "host \<Rightarrow> string \<Rightarrow> jsnum" where
  "StringToNumber h s =
     (let t = trim s in
      if t = [] then Fin 0
      else case StrDecimalInteger t of
             Some i \<Rightarrow> if safe_integer i then Fin (of_int i) else otherLiteral h t
           | None \<Rightarrow>
               if t = ''Infinity'' \<or> t = ''+Infinity'' then PosInf
               else if t = ''-Infinity'' then NegInf
               else otherLiteral h t)"

text \<open>\<^verbatim>\<open>Number(n)\<close> for a bigint \<open>n\<close>.\<close>

definition BigIntToNumber :: "host \<Rightarrow> int \<Rightarrow> jsnum" where
  "BigIntToNumber h i = (if safe_integer i then Fin (of_int i) else otherBigInt h i)"

definition show_int :: "int \<Rightarrow> string" where
  "show_int i = (if i < 0 then CHR ''-'' # decimal (nat (- i)) else decimal (nat i))"

text \<open>\<^verbatim>\<open>String(num)\<close> for a number.\<close>

definition NumberToString :: "host \<Rightarrow> jsnum \<Rightarrow> string" where
  "NumberToString h n =
     (case n of
        NaN \<Rightarrow> ''NaN''
      | PosInf \<Rightarrow> ''Infinity''
      | NegInf \<Rightarrow> ''-Infinity''
      | Fin r \<Rightarrow>
          if r = of_int \<lfloor>r\<rfloor> \<and> safe_integer \<lfloor>r\<rfloor> then show_int \<lfloor>r\<rfloor>
          else otherToString h r)"

text \<open>\<^verbatim>\<open>String(b)\<close> for a boolean.\<close>

definition BooleanToString :: "bool \<Rightarrow> string" where
  "BooleanToString b = (if b then ''true'' else ''false'')"

text \<open>
  \<^verbatim>\<open>toLowerCase\<close> on the ASCII range. Every recognised attribute name is made of the
  letters a to z, so a name with a character outside ASCII is unknown before and after.
\<close>

definition lower_char :: "char \<Rightarrow> char" where
  "lower_char c =
     (if 65 \<le> (of_char c :: nat) \<and> (of_char c :: nat) \<le> 90
      then char_of ((of_char c :: nat) + 32) else c)"

definition toLowerCase :: "string \<Rightarrow> string" where
  "toLowerCase s = map lower_char s"

section \<open>The document\<close>

text \<open>
  \<open>idCounter\<close> is the static \<^verbatim>\<open>EasyAria.#idCounter\<close>; \<open>attributes e\<close> is the attribute
  list of the element \<open>e\<close>, which \<^verbatim>\<open>getAttribute\<close>, \<^verbatim>\<open>setAttribute\<close> and
  \<^verbatim>\<open>removeAttribute\<close> read and write. The counter is a natural number here (the code
  counts in doubles, exact up to \<open>2 ^ 53\<close>).
\<close>

record dom =
  idCounter :: nat
  attributes :: "handle \<Rightarrow> (string \<rightharpoonup> string)"

text \<open>
  The property \<^verbatim>\<open>el.id\<close> reflects the content attribute \<^verbatim>\<open>id\<close>: reading it gives the value
  of the attribute, or the empty string when the element has none, and assigning to it
  sets the attribute.
\<close>

definition elem_id :: "dom \<Rightarrow> handle \<Rightarrow> string" where
  "elem_id st e = (case attributes st e ''id'' of None \<Rightarrow> [] | Some i \<Rightarrow> i)"

definition set_elem_id :: "handle \<Rightarrow> string \<Rightarrow> dom \<Rightarrow> dom" where
  "set_elem_id e i st = st\<lparr>attributes := (attributes st)(e := (attributes st e)(''id'' \<mapsto> i))\<rparr>"

datatype error = InvalidAttribute | InvalidValue

text \<open>
  Both errors are a \<^verbatim>\<open>TypeError\<close> in the code: \<open>InvalidAttribute\<close> is the one of the
  \<^verbatim>\<open>default\<close> branch (message \<^verbatim>\<open>Invalid attribute: ...\<close>), \<open>InvalidValue\<close> every
  one raised for the second argument.
\<close>

datatype getval = RNull | RBool bool | RStr string | RNum jsnum

definition generateId :: "dom \<Rightarrow> string \<times> dom" where
  "generateId st =
     (''easy-aria-id-'' @ decimal (idCounter st), st\<lparr>idCounter := idCounter st + 1\<rparr>)"

definition getId :: "jsval \<Rightarrow> dom \<Rightarrow> string \<times> dom" where
  "getId v st =
     (case v of
        VElement e \<Rightarrow>
          if elem_id st e = []
          then (let (i, st1) = generateId st;
                    st2 = set_elem_id e i st1
                in (elem_id st2 e, st2))
          else (elem_id st e, st)
      | _ \<Rightarrow> ([], st))"

definition setAttr :: "handle \<Rightarrow> string \<Rightarrow> string \<Rightarrow> dom \<Rightarrow> dom" where
  "setAttr el attribute v st =
     st\<lparr>attributes := (attributes st)(el := (attributes st el)(''aria-'' @ attribute \<mapsto> v))\<rparr>"

text \<open>\<^verbatim>\<open>Array.prototype.map.call(value, (el) => EasyAria.#getId(el))\<close>, left to right.\<close>

fun getIds :: "jsval list \<Rightarrow> dom \<Rightarrow> string list \<times> dom" where
  "getIds [] st = ([], st)"
| "getIds (v # vs) st =
     (let (i, st1) = getId v st; (ids, st2) = getIds vs st1 in (i # ids, st2))"

text \<open>\<^verbatim>\<open>.join(' ')\<close> on an array of strings.\<close>

fun join :: "string list \<Rightarrow> string" where
  "join [] = []"
| "join [x] = x"
| "join (x # y # ys) = x @ '' '' @ join (y # ys)"

section \<open>The attribute names, as the switch of \<^verbatim>\<open>set\<close> groups them\<close>

definition string_attributes :: "string list" where
  "string_attributes = [''keyshortcuts'', ''label'', ''placeholder'', ''roledescription'', ''valuetext'']"

definition idref_attributes :: "string list" where
  "idref_attributes = [''activedescendant'', ''details'', ''errormessage'']"

definition idref_list_attributes :: "string list" where
  "idref_list_attributes = [''controls'', ''describedby'', ''flowto'', ''labelledby'', ''owns'']"

definition boolean_only_attributes :: "string list" where
  "boolean_only_attributes =
     [''atomic'', ''busy'', ''disabled'', ''modal'', ''multiline'', ''multiselectable'',
      ''readonly'', ''required'']"

definition boolean_undefined_attributes :: "string list" where
  "boolean_undefined_attributes = [''expanded'', ''grabbed'', ''hidden'', ''selected'']"

definition boolean_mixed_attributes :: "string list" where
  "boolean_mixed_attributes = [''checked'', ''pressed'']"

definition number_attributes :: "string list" where
  "number_attributes =
     [''colcount'', ''colindex'', ''colspan'', ''level'', ''posinset'', ''rowcount'',
      ''rowindex'', ''rowspan'', ''setsize'', ''valuemax'', ''valuemin'', ''valuenow'']"

text \<open>The case labels of the inner switches.\<close>

definition undefined_tokens :: "string list" where
  "undefined_tokens = [''undefined'']"

definition mixed_tokens :: "string list" where
  "mixed_tokens = [''mixed'', ''undefined'']"

definition current_tokens :: "string list" where
  "current_tokens = [''page'', ''step'', ''location'', ''date'', ''time'']"

definition haspopup_tokens :: "string list" where
  "haspopup_tokens = [''menu'', ''listbox'', ''tree'', ''grid'', ''dialog'']"

definition invalid_tokens :: "string list" where
  "invalid_tokens = [''grammar'', ''spelling'']"

definition autocomplete_tokens :: "string list" where
  "autocomplete_tokens = [''both'', ''inline'', ''list'', ''none'']"

definition dropeffect_tokens :: "string list" where
  "dropeffect_tokens = [''copy'', ''execute'', ''link'', ''move'', ''none'', ''popup'']"

definition live_tokens :: "string list" where
  "live_tokens = [''assertive'', ''off'', ''polite'']"

definition orientation_tokens :: "string list" where
  "orientation_tokens = [''horizontal'', ''undefined'', ''vertical'']"

definition relevant_tokens :: "string list" where
  "relevant_tokens = [''additions'', ''additions text'', ''all'', ''removals'', ''text'']"

definition sort_tokens :: "string list" where
  "sort_tokens = [''ascending'', ''descending'', ''none'', ''other'']"

section \<open>\<^verbatim>\<open>set\<close>\<close>

text \<open>
  A call returns the outcome (\<open>Inl\<close> the error thrown, \<open>Inr ()\<close> for \<^verbatim>\<open>return this\<close>)
  together with the document as the call leaves it: a throw does not undo what was
  written before it.
\<close>

type_synonym 'a outcome = "(error + 'a) \<times> dom"

text \<open>
  The body shared by the boolean attributes with tokens: an omitted value writes
  \<^verbatim>\<open>String(true)\<close>, a boolean its string, one of the listed strings itself; anything else
  throws. The boolean-only attributes are the same switch with no string label.
\<close>

definition set_boolean :: "string list \<Rightarrow> handle \<Rightarrow> string \<Rightarrow> jsval \<Rightarrow> dom \<Rightarrow> unit outcome" where
  "set_boolean tokens el attribute v st =
     (case v of
        VUndefined \<Rightarrow> (Inr (), setAttr el attribute (BooleanToString True) st)
      | VBool b \<Rightarrow> (Inr (), setAttr el attribute (BooleanToString b) st)
      | VStr s \<Rightarrow>
          if s \<in> set tokens then (Inr (), setAttr el attribute s st)
          else (Inl InvalidValue, st)
      | _ \<Rightarrow> (Inl InvalidValue, st))"

text \<open>The body of a token attribute: one of the listed strings, or a throw.\<close>

definition set_token :: "string list \<Rightarrow> handle \<Rightarrow> string \<Rightarrow> jsval \<Rightarrow> dom \<Rightarrow> unit outcome" where
  "set_token tokens el attribute v st =
     (case v of
        VStr s \<Rightarrow>
          if s \<in> set tokens then (Inr (), setAttr el attribute s st)
          else (Inl InvalidValue, st)
      | _ \<Rightarrow> (Inl InvalidValue, st))"

text \<open>The bodies of the other groups of case labels.\<close>

definition set_string :: "handle \<Rightarrow> string \<Rightarrow> jsval \<Rightarrow> dom \<Rightarrow> unit outcome" where
  "set_string el attribute v st =
     (case v of
        VStr s \<Rightarrow> (Inr (), setAttr el attribute s st)
      | _ \<Rightarrow> (Inl InvalidValue, st))"

definition set_idref :: "handle \<Rightarrow> string \<Rightarrow> jsval \<Rightarrow> dom \<Rightarrow> unit outcome" where
  "set_idref el attribute v st =
     (case v of
        VElement e \<Rightarrow>
          (let (i, st1) = getId (VElement e) st in (Inr (), setAttr el attribute i st1))
      | VStr s \<Rightarrow> (Inr (), setAttr el attribute s st)
      | _ \<Rightarrow> (Inl InvalidValue, st))"

definition set_idref_list :: "handle \<Rightarrow> string \<Rightarrow> jsval \<Rightarrow> dom \<Rightarrow> unit outcome" where
  "set_idref_list el attribute v st =
     (case v of
        VElement e \<Rightarrow>
          (let (i, st1) = getId (VElement e) st in (Inr (), setAttr el attribute i st1))
      | VArray vs \<Rightarrow>
          (let (ids, st1) = getIds vs st
           in (Inr (), setAttr el attribute (join (filter (\<lambda>i. i \<noteq> []) ids)) st1))
      | VNodeList es \<Rightarrow>
          (let (ids, st1) = getIds (map VElement es) st
           in (Inr (), setAttr el attribute (join (filter (\<lambda>i. i \<noteq> []) ids)) st1))
      | VStr s \<Rightarrow> (Inr (), setAttr el attribute s st)
      | _ \<Rightarrow> (Inl InvalidValue, st))"

text \<open>
  \<^verbatim>\<open>Number(value)\<close> under the \<^verbatim>\<open>typeof\<close> test of the number attributes: \<open>None\<close> when the
  value is neither a bigint, a number nor a string.
\<close>

definition NumberOfValue :: "host \<Rightarrow> jsval \<Rightarrow> jsnum option" where
  "NumberOfValue h v =
     (case v of
        VBigInt i \<Rightarrow> Some (BigIntToNumber h i)
      | VNum n \<Rightarrow> Some n
      | VStr s \<Rightarrow> Some (StringToNumber h s)
      | _ \<Rightarrow> None)"

definition set_number :: "host \<Rightarrow> handle \<Rightarrow> string \<Rightarrow> jsval \<Rightarrow> dom \<Rightarrow> unit outcome" where
  "set_number h el attribute v st =
     (case NumberOfValue h v of
        Some num \<Rightarrow>
          if num = NaN then (Inl InvalidValue, st)
          else (Inr (), setAttr el attribute (NumberToString h num) st)
      | None \<Rightarrow> (Inl InvalidValue, st))"

definition set_attr :: "host \<Rightarrow> handle \<Rightarrow> string \<Rightarrow> jsval \<Rightarrow> dom \<Rightarrow> unit outcome" where
  "set_attr h el name v st =
     (let attribute = toLowerCase name in
      if attribute \<in> set string_attributes then set_string el attribute v st
      else if attribute \<in> set idref_attributes then set_idref el attribute v st
      else if attribute \<in> set idref_list_attributes then set_idref_list el attribute v st
      else if attribute \<in> set boolean_only_attributes then set_boolean [] el attribute v st
      else if attribute \<in> set boolean_undefined_attributes then
        set_boolean undefined_tokens el attribute v st
      else if attribute \<in> set boolean_mixed_attributes then
        set_boolean mixed_tokens el attribute v st
      else if attribute = ''current'' then set_boolean current_tokens el attribute v st
      else if attribute = ''haspopup'' then set_boolean haspopup_tokens el attribute v st
      else if attribute = ''invalid'' then set_boolean invalid_tokens el attribute v st
      else if attribute = ''autocomplete'' then set_token autocomplete_tokens el attribute v st
      else if attribute = ''dropeffect'' then set_token dropeffect_tokens el attribute v st
      else if attribute = ''live'' then set_token live_tokens el attribute v st
      else if attribute = ''orientation'' then set_token orientation_tokens el attribute v st
      else if attribute = ''relevant'' then set_token relevant_tokens el attribute v st
      else if attribute = ''sort'' then set_token sort_tokens el attribute v st
      else if attribute \<in> set number_attributes then set_number h el attribute v st
      else (Inl InvalidAttribute, st))"

section \<open>\<^verbatim>\<open>unset\<close>\<close>

text \<open>The case labels of its switch, in the order of the code.\<close>

definition aria_attributes :: "string list" where
  "aria_attributes =
     string_attributes @ idref_attributes @ idref_list_attributes
     @ boolean_only_attributes @ boolean_undefined_attributes
     @ [''checked'', ''current'', ''haspopup'', ''invalid'', ''pressed'',
        ''autocomplete'', ''dropeffect'', ''live'', ''orientation'', ''relevant'', ''sort'']
     @ number_attributes"

definition unset :: "handle \<Rightarrow> string \<Rightarrow> dom \<Rightarrow> unit outcome" where
  "unset el name st =
     (let attribute = toLowerCase name in
      if attribute \<in> set aria_attributes
      then (Inr (),
            st\<lparr>attributes := (attributes st)(el := (attributes st el)((''aria-'' @ attribute) := None))\<rparr>)
      else (Inl InvalidAttribute, st))"

section \<open>\<^verbatim>\<open>get\<close>\<close>

text \<open>
  \<^verbatim>\<open>get\<close> writes nothing, so it returns the outcome alone. \<open>None\<close> is the \<^verbatim>\<open>null\<close> of
  \<^verbatim>\<open>getAttribute\<close> for an attribute that is not there.
\<close>

text \<open>The first group of case labels: the attributes whose value is returned as it is.\<close>

definition as_is_attributes :: "string list" where
  "as_is_attributes =
     [''activedescendant'', ''controls'', ''describedby'', ''details'', ''errormessage'',
      ''flowto'', ''keyshortcuts'', ''label'', ''labelledby'', ''owns'', ''placeholder'',
      ''roledescription'', ''valuetext'']"

definition as_is :: "string option \<Rightarrow> getval" where
  "as_is raw = (case raw of None \<Rightarrow> RNull | Some s \<Rightarrow> RStr s)"

text \<open>The inner switch of a token attribute; a value with no label falls out to \<^verbatim>\<open>return null\<close>.\<close>

definition get_token :: "string list \<Rightarrow> string option \<Rightarrow> getval" where
  "get_token tokens raw =
     (case raw of
        None \<Rightarrow> RNull
      | Some s \<Rightarrow> if s \<in> set tokens then RStr s else RNull)"

text \<open>The inner switch of a boolean attribute, with the string labels it lists.\<close>

definition get_boolean :: "string list \<Rightarrow> string option \<Rightarrow> getval" where
  "get_boolean tokens raw =
     (case raw of
        None \<Rightarrow> RNull
      | Some s \<Rightarrow>
          if s = ''true'' then RBool True
          else if s = ''false'' then RBool False
          else if s \<in> set tokens then RStr s
          else RNull)"

text \<open>\<^verbatim>\<open>Number(value)\<close> for what \<^verbatim>\<open>getAttribute\<close> returned: \<^verbatim>\<open>Number(null)\<close> is \<open>0\<close>.\<close>

definition NumberOfAttribute :: "host \<Rightarrow> string option \<Rightarrow> jsnum" where
  "NumberOfAttribute h raw = (case raw of None \<Rightarrow> Fin 0 | Some s \<Rightarrow> StringToNumber h s)"

definition get_number :: "host \<Rightarrow> string option \<Rightarrow> getval" where
  "get_number h raw =
     (let num = NumberOfAttribute h raw in if num \<noteq> NaN then RNum num else RNull)"

definition get :: "host \<Rightarrow> handle \<Rightarrow> string \<Rightarrow> dom \<Rightarrow> error + getval" where
  "get h el name st =
     (let attribute = toLowerCase name;
          raw = attributes st el (''aria-'' @ attribute) in
      if attribute \<in> set as_is_attributes then Inr (as_is raw)
      else if attribute = ''autocomplete'' then Inr (get_token autocomplete_tokens raw)
      else if attribute = ''dropeffect'' then Inr (get_token dropeffect_tokens raw)
      else if attribute = ''live'' then Inr (get_token live_tokens raw)
      else if attribute = ''orientation'' then Inr (get_token orientation_tokens raw)
      else if attribute = ''relevant'' then Inr (get_token relevant_tokens raw)
      else if attribute = ''sort'' then Inr (get_token sort_tokens raw)
      else if attribute \<in> set boolean_undefined_attributes then
        Inr (get_boolean undefined_tokens raw)
      else if attribute \<in> set boolean_mixed_attributes then Inr (get_boolean mixed_tokens raw)
      else if attribute = ''current'' then Inr (get_boolean current_tokens raw)
      else if attribute = ''haspopup'' then Inr (get_boolean haspopup_tokens raw)
      else if attribute = ''invalid'' then Inr (get_boolean invalid_tokens raw)
      else if attribute \<in> set boolean_only_attributes then Inr (get_boolean [] raw)
      else if attribute \<in> set number_attributes then Inr (get_number h raw)
      else Inl InvalidAttribute)"

section \<open>The declared types (\<^verbatim>\<open>types.ts\<close>)\<close>

text \<open>
  \<^verbatim>\<open>BooleanSupportedAttributes\<close>: the keys of the interface \<^verbatim>\<open>AriaAttributes\<close> whose type
  has \<^verbatim>\<open>boolean\<close> as a member, in the order of the interface.
\<close>

definition BooleanSupportedAttributes :: "string list" where
  "BooleanSupportedAttributes =
     [''atomic'', ''busy'', ''checked'', ''current'', ''disabled'', ''expanded'', ''grabbed'',
      ''haspopup'', ''hidden'', ''invalid'', ''modal'', ''multiline'', ''multiselectable'',
      ''pressed'', ''readonly'', ''required'', ''selected'']"

text \<open>The string literals that the interface gives as members of an attribute's type.\<close>

definition declared_tokens :: "string \<Rightarrow> string list" where
  "declared_tokens a =
     (if a = ''autocomplete'' then [''inline'', ''list'', ''both'', ''none'']
      else if a = ''checked'' then [''mixed'', ''undefined'']
      else if a = ''current'' then [''page'', ''step'', ''location'', ''date'', ''time'']
      else if a = ''dropeffect'' then [''copy'', ''execute'', ''link'', ''move'', ''none'', ''popup'']
      else if a = ''expanded'' then [''undefined'']
      else if a = ''grabbed'' then [''undefined'']
      else if a = ''haspopup'' then [''menu'', ''listbox'', ''tree'', ''grid'', ''dialog'']
      else if a = ''hidden'' then [''undefined'']
      else if a = ''invalid'' then [''grammar'', ''spelling'']
      else if a = ''live'' then [''assertive'', ''off'', ''polite'']
      else if a = ''orientation'' then [''horizontal'', ''undefined'', ''vertical'']
      else if a = ''pressed'' then [''mixed'', ''undefined'']
      else if a = ''relevant'' then [''additions'', ''additions text'', ''all'', ''removals'', ''text'']
      else if a = ''selected'' then [''undefined'']
      else if a = ''sort'' then [''ascending'', ''descending'', ''none'', ''other'']
      else [])"

section \<open>Words of the specification\<close>

text \<open>
  The numbers whose string the model computes: the infinities, and the integers that a
  double holds exactly.
\<close>

definition plain_number :: "jsnum \<Rightarrow> bool" where
  "plain_number n =
     (case n of
        NaN \<Rightarrow> False
      | PosInf \<Rightarrow> True
      | NegInf \<Rightarrow> True
      | Fin r \<Rightarrow> r = of_int \<lfloor>r\<rfloor> \<and> safe_integer \<lfloor>r\<rfloor>)"

text \<open>The handles among the entries of an array, in the order of the array.\<close>

definition element_of :: "jsval \<Rightarrow> handle list" where
  "element_of v = (case v of VElement e \<Rightarrow> [e] | _ \<Rightarrow> [])"

definition elements_of :: "jsval list \<Rightarrow> handle list" where
  "elements_of vs = concat (map element_of vs)"

text \<open>The elements that a value refers to: itself, or the elements of the collection.\<close>

definition referenced :: "jsval \<Rightarrow> handle list" where
  "referenced v =
     (case v of
        VElement e \<Rightarrow> [e]
      | VArray vs \<Rightarrow> elements_of vs
      | VNodeList es \<Rightarrow> es
      | _ \<Rightarrow> [])"

text \<open>
  "Either the whole write succeeds or the store is untouched", seen at the attribute \<open>k\<close>
  of the element \<open>e\<close>: a call that throws leaves the document as it was; a call that
  returns has given \<^verbatim>\<open>aria-<name>\<close> of the wrapped element a value, has left every other
  attribute but \<^verbatim>\<open>id\<close> as it was, and has left the \<^verbatim>\<open>id\<close> of an element as it was when
  the element had an identifier or is not referred to by the value.
\<close>

definition set_effect ::
  "handle \<Rightarrow> string \<Rightarrow> jsval \<Rightarrow> dom \<Rightarrow> unit outcome \<Rightarrow> handle \<Rightarrow> string \<Rightarrow> bool" where
  "set_effect el a v st out e k =
     (case fst out of
        Inl err \<Rightarrow> snd out = st
      | Inr u \<Rightarrow>
          attributes (snd out) el (''aria-'' @ a) \<noteq> None
          \<and> (k = ''id'' \<or> (e = el \<and> k = ''aria-'' @ a)
               \<or> attributes (snd out) e k = attributes st e k)
          \<and> ((elem_id st e = [] \<and> e \<in> set (referenced v))
               \<or> attributes (snd out) e ''id'' = attributes st e ''id''))"

text \<open>
  The host reads back the number it printed for the value: \<^verbatim>\<open>Number(String(n))\<close> is \<open>n\<close>,
  where \<open>n\<close> is \<^verbatim>\<open>Number(v)\<close>. The language promises this for every number but \<^verbatim>\<open>NaN\<close>.
\<close>

definition reads_back :: "host \<Rightarrow> jsval \<Rightarrow> bool" where
  "reads_back h v =
     (case NumberOfValue h v of
        Some n \<Rightarrow> StringToNumber h (NumberToString h n) = n
      | None \<Rightarrow> True)"

text \<open>
  The canonical form of an accepted value, as \<^verbatim>\<open>get\<close> is to return it: a boolean or a
  string is itself, an omitted value is \<^verbatim>\<open>true\<close>, an element is its identifier, a
  collection the identifiers of its elements joined by a space; for a number attribute
  it is the number that the value denotes.
\<close>

definition canonical_value :: "jsval \<Rightarrow> dom \<Rightarrow> getval" where
  "canonical_value v st =
     (case v of
        VUndefined \<Rightarrow> RBool True
      | VBool b \<Rightarrow> RBool b
      | VStr s \<Rightarrow> RStr s
      | VElement e \<Rightarrow> RStr (elem_id st e)
      | VArray vs \<Rightarrow> RStr (join (map (elem_id st) (elements_of vs)))
      | VNodeList es \<Rightarrow> RStr (join (map (elem_id st) es))
      | _ \<Rightarrow> RNull)"

definition canonical :: "host \<Rightarrow> string \<Rightarrow> jsval \<Rightarrow> dom \<Rightarrow> getval" where
  "canonical h a v st =
     (if a \<in> set number_attributes
      then (case NumberOfValue h v of Some n \<Rightarrow> RNum n | None \<Rightarrow> RNull)
      else canonical_value v st)"

section \<open>Concrete inputs\<close>

text \<open>
  A host that knows no literal beyond the ones computed above, and a document in which no
  element has an attribute (so none has an id), with the counter at its initial value.
\<close>

definition plain_host :: host where
  "plain_host =
     \<lparr>otherLiteral = (\<lambda>s. NaN), otherBigInt = (\<lambda>i. NaN), otherToString = (\<lambda>r. ''NaN'')\<rparr>"

definition empty_dom :: dom where
  "empty_dom = \<lparr>idCounter = 1, attributes = (\<lambda>e. Map.empty)\<rparr>"

text \<open>Whether \<^verbatim>\<open>get\<close> knows a name: it does not end in the error of the \<^verbatim>\<open>default\<close> branch.\<close>

definition get_accepts :: "string \<Rightarrow> bool" where
  "get_accepts a = (get plain_host 0 a empty_dom \<noteq> Inl InvalidAttribute)"

section \<open>The groups of case labels do not overlap\<close>

lemmas attribute_lists =
  string_attributes_def idref_attributes_def idref_list_attributes_def
  boolean_only_attributes_def boolean_undefined_attributes_def boolean_mixed_attributes_def
  number_attributes_def

lemma set_as_is_attributes:
  "set as_is_attributes =
     set string_attributes \<union> set idref_attributes \<union> set idref_list_attributes"
  by (auto simp: as_is_attributes_def attribute_lists)

lemma string_attributes_apart:
  "a \<in> set string_attributes \<Longrightarrow>
     a \<notin> set idref_attributes
     \<and> a \<notin> set idref_list_attributes
     \<and> a \<notin> set boolean_only_attributes
     \<and> a \<notin> set boolean_undefined_attributes
     \<and> a \<notin> set boolean_mixed_attributes
     \<and> a \<notin> set number_attributes
     \<and> a \<noteq> ''current''
     \<and> a \<noteq> ''haspopup''
     \<and> a \<noteq> ''invalid''
     \<and> a \<noteq> ''autocomplete''
     \<and> a \<noteq> ''dropeffect''
     \<and> a \<noteq> ''live''
     \<and> a \<noteq> ''orientation''
     \<and> a \<noteq> ''relevant''
     \<and> a \<noteq> ''sort''"
  by (auto simp: attribute_lists)

lemma idref_attributes_apart:
  "a \<in> set idref_attributes \<Longrightarrow>
     a \<notin> set string_attributes
     \<and> a \<notin> set idref_list_attributes
     \<and> a \<notin> set boolean_only_attributes
     \<and> a \<notin> set boolean_undefined_attributes
     \<and> a \<notin> set boolean_mixed_attributes
     \<and> a \<notin> set number_attributes
     \<and> a \<noteq> ''current''
     \<and> a \<noteq> ''haspopup''
     \<and> a \<noteq> ''invalid''
     \<and> a \<noteq> ''autocomplete''
     \<and> a \<noteq> ''dropeffect''
     \<and> a \<noteq> ''live''
     \<and> a \<noteq> ''orientation''
     \<and> a \<noteq> ''relevant''
     \<and> a \<noteq> ''sort''"
  by (auto simp: attribute_lists)

lemma idref_list_attributes_apart:
  "a \<in> set idref_list_attributes \<Longrightarrow>
     a \<notin> set string_attributes
     \<and> a \<notin> set idref_attributes
     \<and> a \<notin> set boolean_only_attributes
     \<and> a \<notin> set boolean_undefined_attributes
     \<and> a \<notin> set boolean_mixed_attributes
     \<and> a \<notin> set number_attributes
     \<and> a \<noteq> ''current''
     \<and> a \<noteq> ''haspopup''
     \<and> a \<noteq> ''invalid''
     \<and> a \<noteq> ''autocomplete''
     \<and> a \<noteq> ''dropeffect''
     \<and> a \<noteq> ''live''
     \<and> a \<noteq> ''orientation''
     \<and> a \<noteq> ''relevant''
     \<and> a \<noteq> ''sort''"
  by (auto simp: attribute_lists)

lemma boolean_only_attributes_apart:
  "a \<in> set boolean_only_attributes \<Longrightarrow>
     a \<notin> set string_attributes
     \<and> a \<notin> set idref_attributes
     \<and> a \<notin> set idref_list_attributes
     \<and> a \<notin> set boolean_undefined_attributes
     \<and> a \<notin> set boolean_mixed_attributes
     \<and> a \<notin> set number_attributes
     \<and> a \<noteq> ''current''
     \<and> a \<noteq> ''haspopup''
     \<and> a \<noteq> ''invalid''
     \<and> a \<noteq> ''autocomplete''
     \<and> a \<noteq> ''dropeffect''
     \<and> a \<noteq> ''live''
     \<and> a \<noteq> ''orientation''
     \<and> a \<noteq> ''relevant''
     \<and> a \<noteq> ''sort''"
  by (auto simp: attribute_lists)

lemma boolean_undefined_attributes_apart:
  "a \<in> set boolean_undefined_attributes \<Longrightarrow>
     a \<notin> set string_attributes
     \<and> a \<notin> set idref_attributes
     \<and> a \<notin> set idref_list_attributes
     \<and> a \<notin> set boolean_only_attributes
     \<and> a \<notin> set boolean_mixed_attributes
     \<and> a \<notin> set number_attributes
     \<and> a \<noteq> ''current''
     \<and> a \<noteq> ''haspopup''
     \<and> a \<noteq> ''invalid''
     \<and> a \<noteq> ''autocomplete''
     \<and> a \<noteq> ''dropeffect''
     \<and> a \<noteq> ''live''
     \<and> a \<noteq> ''orientation''
     \<and> a \<noteq> ''relevant''
     \<and> a \<noteq> ''sort''"
  by (auto simp: attribute_lists)

lemma boolean_mixed_attributes_apart:
  "a \<in> set boolean_mixed_attributes \<Longrightarrow>
     a \<notin> set string_attributes
     \<and> a \<notin> set idref_attributes
     \<and> a \<notin> set idref_list_attributes
     \<and> a \<notin> set boolean_only_attributes
     \<and> a \<notin> set boolean_undefined_attributes
     \<and> a \<notin> set number_attributes
     \<and> a \<noteq> ''current''
     \<and> a \<noteq> ''haspopup''
     \<and> a \<noteq> ''invalid''
     \<and> a \<noteq> ''autocomplete''
     \<and> a \<noteq> ''dropeffect''
     \<and> a \<noteq> ''live''
     \<and> a \<noteq> ''orientation''
     \<and> a \<noteq> ''relevant''
     \<and> a \<noteq> ''sort''"
  by (auto simp: attribute_lists)

lemma number_attributes_apart:
  "a \<in> set number_attributes \<Longrightarrow>
     a \<notin> set string_attributes
     \<and> a \<notin> set idref_attributes
     \<and> a \<notin> set idref_list_attributes
     \<and> a \<notin> set boolean_only_attributes
     \<and> a \<notin> set boolean_undefined_attributes
     \<and> a \<notin> set boolean_mixed_attributes
     \<and> a \<noteq> ''current''
     \<and> a \<noteq> ''haspopup''
     \<and> a \<noteq> ''invalid''
     \<and> a \<noteq> ''autocomplete''
     \<and> a \<noteq> ''dropeffect''
     \<and> a \<noteq> ''live''
     \<and> a \<noteq> ''orientation''
     \<and> a \<noteq> ''relevant''
     \<and> a \<noteq> ''sort''"
  by (auto simp: attribute_lists)

lemma current_apart:
  "''current'' \<notin> set string_attributes
   \<and> ''current'' \<notin> set idref_attributes
   \<and> ''current'' \<notin> set idref_list_attributes
   \<and> ''current'' \<notin> set boolean_only_attributes
   \<and> ''current'' \<notin> set boolean_undefined_attributes
   \<and> ''current'' \<notin> set boolean_mixed_attributes
   \<and> ''current'' \<notin> set number_attributes"
  by (simp add: attribute_lists)

lemma haspopup_apart:
  "''haspopup'' \<notin> set string_attributes
   \<and> ''haspopup'' \<notin> set idref_attributes
   \<and> ''haspopup'' \<notin> set idref_list_attributes
   \<and> ''haspopup'' \<notin> set boolean_only_attributes
   \<and> ''haspopup'' \<notin> set boolean_undefined_attributes
   \<and> ''haspopup'' \<notin> set boolean_mixed_attributes
   \<and> ''haspopup'' \<notin> set number_attributes"
  by (simp add: attribute_lists)

lemma invalid_apart:
  "''invalid'' \<notin> set string_attributes
   \<and> ''invalid'' \<notin> set idref_attributes
   \<and> ''invalid'' \<notin> set idref_list_attributes
   \<and> ''invalid'' \<notin> set boolean_only_attributes
   \<and> ''invalid'' \<notin> set boolean_undefined_attributes
   \<and> ''invalid'' \<notin> set boolean_mixed_attributes
   \<and> ''invalid'' \<notin> set number_attributes"
  by (simp add: attribute_lists)

lemma autocomplete_apart:
  "''autocomplete'' \<notin> set string_attributes
   \<and> ''autocomplete'' \<notin> set idref_attributes
   \<and> ''autocomplete'' \<notin> set idref_list_attributes
   \<and> ''autocomplete'' \<notin> set boolean_only_attributes
   \<and> ''autocomplete'' \<notin> set boolean_undefined_attributes
   \<and> ''autocomplete'' \<notin> set boolean_mixed_attributes
   \<and> ''autocomplete'' \<notin> set number_attributes"
  by (simp add: attribute_lists)

lemma dropeffect_apart:
  "''dropeffect'' \<notin> set string_attributes
   \<and> ''dropeffect'' \<notin> set idref_attributes
   \<and> ''dropeffect'' \<notin> set idref_list_attributes
   \<and> ''dropeffect'' \<notin> set boolean_only_attributes
   \<and> ''dropeffect'' \<notin> set boolean_undefined_attributes
   \<and> ''dropeffect'' \<notin> set boolean_mixed_attributes
   \<and> ''dropeffect'' \<notin> set number_attributes"
  by (simp add: attribute_lists)

lemma live_apart:
  "''live'' \<notin> set string_attributes
   \<and> ''live'' \<notin> set idref_attributes
   \<and> ''live'' \<notin> set idref_list_attributes
   \<and> ''live'' \<notin> set boolean_only_attributes
   \<and> ''live'' \<notin> set boolean_undefined_attributes
   \<and> ''live'' \<notin> set boolean_mixed_attributes
   \<and> ''live'' \<notin> set number_attributes"
  by (simp add: attribute_lists)

lemma orientation_apart:
  "''orientation'' \<notin> set string_attributes
   \<and> ''orientation'' \<notin> set idref_attributes
   \<and> ''orientation'' \<notin> set idref_list_attributes
   \<and> ''orientation'' \<notin> set boolean_only_attributes
   \<and> ''orientation'' \<notin> set boolean_undefined_attributes
   \<and> ''orientation'' \<notin> set boolean_mixed_attributes
   \<and> ''orientation'' \<notin> set number_attributes"
  by (simp add: attribute_lists)

lemma relevant_apart:
  "''relevant'' \<notin> set string_attributes
   \<and> ''relevant'' \<notin> set idref_attributes
   \<and> ''relevant'' \<notin> set idref_list_attributes
   \<and> ''relevant'' \<notin> set boolean_only_attributes
   \<and> ''relevant'' \<notin> set boolean_undefined_attributes
   \<and> ''relevant'' \<notin> set boolean_mixed_attributes
   \<and> ''relevant'' \<notin> set number_attributes"
  by (simp add: attribute_lists)

lemma sort_apart:
  "''sort'' \<notin> set string_attributes
   \<and> ''sort'' \<notin> set idref_attributes
   \<and> ''sort'' \<notin> set idref_list_attributes
   \<and> ''sort'' \<notin> set boolean_only_attributes
   \<and> ''sort'' \<notin> set boolean_undefined_attributes
   \<and> ''sort'' \<notin> set boolean_mixed_attributes
   \<and> ''sort'' \<notin> set number_attributes"
  by (simp add: attribute_lists)

section \<open>Which branch a name takes\<close>

lemma set_attr_string:
  "toLowerCase name \<in> set string_attributes \<Longrightarrow>
   set_attr h el name v st = set_string el (toLowerCase name) v st"
  by (simp add: set_attr_def Let_def string_attributes_apart)

lemma set_attr_idref:
  "toLowerCase name \<in> set idref_attributes \<Longrightarrow>
   set_attr h el name v st = set_idref el (toLowerCase name) v st"
  by (simp add: set_attr_def Let_def idref_attributes_apart)

lemma set_attr_idref_list:
  "toLowerCase name \<in> set idref_list_attributes \<Longrightarrow>
   set_attr h el name v st = set_idref_list el (toLowerCase name) v st"
  by (simp add: set_attr_def Let_def idref_list_attributes_apart)

lemma set_attr_boolean_only:
  "toLowerCase name \<in> set boolean_only_attributes \<Longrightarrow>
   set_attr h el name v st = set_boolean [] el (toLowerCase name) v st"
  by (simp add: set_attr_def Let_def boolean_only_attributes_apart)

lemma set_attr_boolean_undefined:
  "toLowerCase name \<in> set boolean_undefined_attributes \<Longrightarrow>
   set_attr h el name v st = set_boolean undefined_tokens el (toLowerCase name) v st"
  by (simp add: set_attr_def Let_def boolean_undefined_attributes_apart)

lemma set_attr_boolean_mixed:
  "toLowerCase name \<in> set boolean_mixed_attributes \<Longrightarrow>
   set_attr h el name v st = set_boolean mixed_tokens el (toLowerCase name) v st"
  by (simp add: set_attr_def Let_def boolean_mixed_attributes_apart)

lemma set_attr_number:
  "toLowerCase name \<in> set number_attributes \<Longrightarrow>
   set_attr h el name v st = set_number h el (toLowerCase name) v st"
  by (simp add: set_attr_def Let_def number_attributes_apart)

lemma set_attr_current:
  "toLowerCase name = ''current'' \<Longrightarrow>
   set_attr h el name v st = set_boolean current_tokens el ''current'' v st"
  by (simp add: set_attr_def Let_def current_apart)

lemma set_attr_haspopup:
  "toLowerCase name = ''haspopup'' \<Longrightarrow>
   set_attr h el name v st = set_boolean haspopup_tokens el ''haspopup'' v st"
  by (simp add: set_attr_def Let_def haspopup_apart)

lemma set_attr_invalid:
  "toLowerCase name = ''invalid'' \<Longrightarrow>
   set_attr h el name v st = set_boolean invalid_tokens el ''invalid'' v st"
  by (simp add: set_attr_def Let_def invalid_apart)

lemma set_attr_autocomplete:
  "toLowerCase name = ''autocomplete'' \<Longrightarrow>
   set_attr h el name v st = set_token autocomplete_tokens el ''autocomplete'' v st"
  by (simp add: set_attr_def Let_def autocomplete_apart)

lemma set_attr_dropeffect:
  "toLowerCase name = ''dropeffect'' \<Longrightarrow>
   set_attr h el name v st = set_token dropeffect_tokens el ''dropeffect'' v st"
  by (simp add: set_attr_def Let_def dropeffect_apart)

lemma set_attr_live:
  "toLowerCase name = ''live'' \<Longrightarrow>
   set_attr h el name v st = set_token live_tokens el ''live'' v st"
  by (simp add: set_attr_def Let_def live_apart)

lemma set_attr_orientation:
  "toLowerCase name = ''orientation'' \<Longrightarrow>
   set_attr h el name v st = set_token orientation_tokens el ''orientation'' v st"
  by (simp add: set_attr_def Let_def orientation_apart)

lemma set_attr_relevant:
  "toLowerCase name = ''relevant'' \<Longrightarrow>
   set_attr h el name v st = set_token relevant_tokens el ''relevant'' v st"
  by (simp add: set_attr_def Let_def relevant_apart)

lemma set_attr_sort:
  "toLowerCase name = ''sort'' \<Longrightarrow>
   set_attr h el name v st = set_token sort_tokens el ''sort'' v st"
  by (simp add: set_attr_def Let_def sort_apart)

lemma set_attr_unknown:
  "toLowerCase name \<notin> set aria_attributes \<Longrightarrow>
   set_attr h el name v st = (Inl InvalidAttribute, st)"
  by (simp add: set_attr_def Let_def aria_attributes_def boolean_mixed_attributes_def)

lemma get_string_attribute:
  "toLowerCase name \<in> set string_attributes \<Longrightarrow>
   get h el name st = Inr (as_is (attributes st el (''aria-'' @ toLowerCase name)))"
  by (simp add: get_def Let_def set_as_is_attributes string_attributes_apart)

lemma get_idref_attribute:
  "toLowerCase name \<in> set idref_attributes \<Longrightarrow>
   get h el name st = Inr (as_is (attributes st el (''aria-'' @ toLowerCase name)))"
  by (simp add: get_def Let_def set_as_is_attributes idref_attributes_apart)

lemma get_idref_list_attribute:
  "toLowerCase name \<in> set idref_list_attributes \<Longrightarrow>
   get h el name st = Inr (as_is (attributes st el (''aria-'' @ toLowerCase name)))"
  by (simp add: get_def Let_def set_as_is_attributes idref_list_attributes_apart)

lemma get_boolean_only_attribute:
  "toLowerCase name \<in> set boolean_only_attributes \<Longrightarrow>
   get h el name st = Inr (get_boolean [] (attributes st el (''aria-'' @ toLowerCase name)))"
  by (simp add: get_def Let_def set_as_is_attributes boolean_only_attributes_apart)

lemma get_boolean_undefined_attribute:
  "toLowerCase name \<in> set boolean_undefined_attributes \<Longrightarrow>
   get h el name st = Inr (get_boolean undefined_tokens (attributes st el (''aria-'' @ toLowerCase name)))"
  by (simp add: get_def Let_def set_as_is_attributes boolean_undefined_attributes_apart)

lemma get_boolean_mixed_attribute:
  "toLowerCase name \<in> set boolean_mixed_attributes \<Longrightarrow>
   get h el name st = Inr (get_boolean mixed_tokens (attributes st el (''aria-'' @ toLowerCase name)))"
  by (simp add: get_def Let_def set_as_is_attributes boolean_mixed_attributes_apart)

lemma get_number_attribute:
  "toLowerCase name \<in> set number_attributes \<Longrightarrow>
   get h el name st = Inr (get_number h (attributes st el (''aria-'' @ toLowerCase name)))"
  by (simp add: get_def Let_def set_as_is_attributes number_attributes_apart)

lemma get_current:
  "toLowerCase name = ''current'' \<Longrightarrow>
   get h el name st = Inr (get_boolean current_tokens (attributes st el ''aria-current''))"
  by (simp add: get_def Let_def set_as_is_attributes current_apart)

lemma get_haspopup:
  "toLowerCase name = ''haspopup'' \<Longrightarrow>
   get h el name st = Inr (get_boolean haspopup_tokens (attributes st el ''aria-haspopup''))"
  by (simp add: get_def Let_def set_as_is_attributes haspopup_apart)

lemma get_invalid:
  "toLowerCase name = ''invalid'' \<Longrightarrow>
   get h el name st = Inr (get_boolean invalid_tokens (attributes st el ''aria-invalid''))"
  by (simp add: get_def Let_def set_as_is_attributes invalid_apart)

lemma get_autocomplete:
  "toLowerCase name = ''autocomplete'' \<Longrightarrow>
   get h el name st = Inr (get_token autocomplete_tokens (attributes st el ''aria-autocomplete''))"
  by (simp add: get_def Let_def set_as_is_attributes autocomplete_apart)

lemma get_dropeffect:
  "toLowerCase name = ''dropeffect'' \<Longrightarrow>
   get h el name st = Inr (get_token dropeffect_tokens (attributes st el ''aria-dropeffect''))"
  by (simp add: get_def Let_def set_as_is_attributes dropeffect_apart)

lemma get_live:
  "toLowerCase name = ''live'' \<Longrightarrow>
   get h el name st = Inr (get_token live_tokens (attributes st el ''aria-live''))"
  by (simp add: get_def Let_def set_as_is_attributes live_apart)

lemma get_orientation:
  "toLowerCase name = ''orientation'' \<Longrightarrow>
   get h el name st = Inr (get_token orientation_tokens (attributes st el ''aria-orientation''))"
  by (simp add: get_def Let_def set_as_is_attributes orientation_apart)

lemma get_relevant:
  "toLowerCase name = ''relevant'' \<Longrightarrow>
   get h el name st = Inr (get_token relevant_tokens (attributes st el ''aria-relevant''))"
  by (simp add: get_def Let_def set_as_is_attributes relevant_apart)

lemma get_sort:
  "toLowerCase name = ''sort'' \<Longrightarrow>
   get h el name st = Inr (get_token sort_tokens (attributes st el ''aria-sort''))"
  by (simp add: get_def Let_def set_as_is_attributes sort_apart)

lemma get_unknown:
  "toLowerCase name \<notin> set aria_attributes \<Longrightarrow> get h el name st = Inl InvalidAttribute"
  by (simp add: get_def Let_def set_as_is_attributes aria_attributes_def boolean_mixed_attributes_def)

lemma unset_unknown:
  "toLowerCase name \<notin> set aria_attributes \<Longrightarrow>
   unset el name st = (Inl InvalidAttribute, st)"
  by (simp add: unset_def)

section \<open>Reading an attribute that is not there\<close>

lemma get_number_absent:
  "toLowerCase name \<in> set number_attributes \<Longrightarrow>
   attributes st el (''aria-'' @ toLowerCase name) = None \<Longrightarrow>
   get h el name st = Inr (RNum (Fin 0))"
  by (simp add: get_number_attribute get_number_def NumberOfAttribute_def)

text \<open>
  Claim C1 says that \<^verbatim>\<open>get(name)\<close> returns \<^verbatim>\<open>null\<close> for every recognised name, the number
  attributes included, when the element has no such attribute, for example right after
  \<^verbatim>\<open>unset(name)\<close>. The code does not: the number branch passes the \<^verbatim>\<open>null\<close> of
  \<^verbatim>\<open>getAttribute\<close> to \<^verbatim>\<open>Number\<close>, which makes it \<open>0\<close>, and \<open>0\<close> is not \<^verbatim>\<open>NaN\<close>. After
  \<^verbatim>\<open>unset('colcount')\<close> on an element without attributes, \<^verbatim>\<open>get('colcount')\<close> is the
  number \<open>0\<close>, whatever the host.
\<close>

theorem get_colcount_after_unset_is_zero:
  "get h el ''colcount'' (snd (unset el ''colcount'' empty_dom)) = Inr (RNum (Fin 0))"
  by (simp add: get_def unset_def Let_def toLowerCase_def lower_char_def
      set_as_is_attributes aria_attributes_def attribute_lists get_number_def
      NumberOfAttribute_def empty_dom_def)

section \<open>Setting a reference attribute without a value\<close>

text \<open>
  Claim C2 says that \<^verbatim>\<open>set(name)\<close> with a \<^verbatim>\<open>null\<close> or absent value does nothing and raises
  no error, for the reference attributes. With the value absent the code throws:
  \<^verbatim>\<open>set('activedescendant')\<close> on an empty document ends in the \<^verbatim>\<open>TypeError\<close> of the
  last \<^verbatim>\<open>else\<close>.
\<close>

theorem set_activedescendant_absent_throws:
  "set_attr plain_host 0 ''activedescendant'' VUndefined empty_dom
     = (Inl InvalidValue, empty_dom)"
  by (simp add: set_attr_def Let_def toLowerCase_def lower_char_def attribute_lists
      set_idref_def)

text \<open>
  Claim C2 as amended: for every attribute that takes one reference (activedescendant,
  details, errormessage) or a list of references (controls, describedby, flowto,
  labelledby, owns), \<^verbatim>\<open>set(name)\<close> with the value absent (\<^verbatim>\<open>undefined\<close>) fails with
  \<open>InvalidValue\<close> and leaves the document as it was.
\<close>

theorem set_reference_absent:
  "toLowerCase name \<in> set (idref_attributes @ idref_list_attributes) \<Longrightarrow>
   set_attr h el name VUndefined st = (Inl InvalidValue, st)"
  by (auto simp: set_attr_idref set_attr_idref_list set_idref_def set_idref_list_def)

theorem set_reference_absent_witness:
  "toLowerCase ''owns'' \<in> set (idref_attributes @ idref_list_attributes)
   \<and> set_attr plain_host 0 ''owns'' VUndefined empty_dom = (Inl InvalidValue, empty_dom)"
proof -
  have m: "toLowerCase ''owns'' \<in> set (idref_attributes @ idref_list_attributes)"
    by (simp add: toLowerCase_def lower_char_def attribute_lists)
  show ?thesis using m set_reference_absent [OF m] by simp
qed

text \<open>The value \<^verbatim>\<open>null\<close> takes the same \<^verbatim>\<open>else\<close>.\<close>

lemma set_reference_null:
  "toLowerCase name \<in> set (idref_attributes @ idref_list_attributes) \<Longrightarrow>
   set_attr h el name VNull st = (Inl InvalidValue, st)"
  by (auto simp: set_attr_idref set_attr_idref_list set_idref_def set_idref_list_def)

section \<open>The boolean attributes\<close>

lemma set_BooleanSupportedAttributes:
  "set BooleanSupportedAttributes =
     set boolean_only_attributes \<union> set boolean_undefined_attributes
     \<union> set boolean_mixed_attributes \<union> {''current'', ''haspopup'', ''invalid''}"
  by (auto simp: BooleanSupportedAttributes_def attribute_lists)

lemma boolean_cases:
  assumes "a \<in> set BooleanSupportedAttributes"
  obtains "a \<in> set boolean_only_attributes" | "a \<in> set boolean_undefined_attributes"
    | "a \<in> set boolean_mixed_attributes" | "a = ''current''" | "a = ''haspopup''"
    | "a = ''invalid''"
  using assms unfolding set_BooleanSupportedAttributes by blast

lemma declared_tokens_boolean_only:
  "a \<in> set boolean_only_attributes \<Longrightarrow> declared_tokens a = []"
  by (auto simp: attribute_lists) (simp_all add: declared_tokens_def)

lemma declared_tokens_boolean_undefined:
  "a \<in> set boolean_undefined_attributes \<Longrightarrow> declared_tokens a = undefined_tokens"
  by (auto simp: attribute_lists) (simp_all add: declared_tokens_def undefined_tokens_def)

lemma declared_tokens_boolean_mixed:
  "a \<in> set boolean_mixed_attributes \<Longrightarrow> declared_tokens a = mixed_tokens"
  by (auto simp: attribute_lists) (simp_all add: declared_tokens_def mixed_tokens_def)

lemma declared_tokens_singles:
  "declared_tokens ''current'' = current_tokens"
  "declared_tokens ''haspopup'' = haspopup_tokens"
  "declared_tokens ''invalid'' = invalid_tokens"
  by (simp_all add: declared_tokens_def current_tokens_def haspopup_tokens_def invalid_tokens_def)

lemma get_boolean_supported:
  assumes "toLowerCase name \<in> set BooleanSupportedAttributes"
  shows "get h el name st =
    Inr (get_boolean (declared_tokens (toLowerCase name))
           (attributes st el (''aria-'' @ toLowerCase name)))"
  using assms
proof (cases rule: boolean_cases)
  case 1 then show ?thesis by (simp add: get_boolean_only_attribute declared_tokens_boolean_only)
next
  case 2 then show ?thesis
    by (simp add: get_boolean_undefined_attribute declared_tokens_boolean_undefined)
next
  case 3 then show ?thesis by (simp add: get_boolean_mixed_attribute declared_tokens_boolean_mixed)
next
  case 4 then show ?thesis by (simp add: get_current declared_tokens_singles)
next
  case 5 then show ?thesis by (simp add: get_haspopup declared_tokens_singles)
next
  case 6 then show ?thesis by (simp add: get_invalid declared_tokens_singles)
qed

lemma set_attr_boolean_supported:
  assumes "toLowerCase name \<in> set BooleanSupportedAttributes"
  shows "set_attr h el name v st =
    set_boolean (declared_tokens (toLowerCase name)) el (toLowerCase name) v st"
  using assms
proof (cases rule: boolean_cases)
  case 1 then show ?thesis by (simp add: set_attr_boolean_only declared_tokens_boolean_only)
next
  case 2 then show ?thesis
    by (simp add: set_attr_boolean_undefined declared_tokens_boolean_undefined)
next
  case 3 then show ?thesis by (simp add: set_attr_boolean_mixed declared_tokens_boolean_mixed)
next
  case 4 then show ?thesis by (simp add: set_attr_current declared_tokens_singles)
next
  case 5 then show ?thesis by (simp add: set_attr_haspopup declared_tokens_singles)
next
  case 6 then show ?thesis by (simp add: set_attr_invalid declared_tokens_singles)
qed

lemma attributes_setAttr:
  "attributes (setAttr el a s st) el' k =
     (if el' = el \<and> k = ''aria-'' @ a then Some s else attributes st el' k)"
  by (simp add: setAttr_def)

text \<open>
  Claim C5: for every attribute that takes a boolean, \<^verbatim>\<open>get(name)\<close> returns \<^verbatim>\<open>true\<close> when
  the stored string is exactly \<^verbatim>\<open>"true"\<close> and \<^verbatim>\<open>false\<close> when it is exactly \<^verbatim>\<open>"false"\<close>;
  any other stored string that is none of the tokens declared for the attribute gives
  \<^verbatim>\<open>null\<close> and no error. The witness reads \<^verbatim>\<open>" true"\<close> and \<^verbatim>\<open>"TRUE"\<close> as \<^verbatim>\<open>null\<close>.
\<close>

theorem strict_boolean_read:
  assumes "toLowerCase name \<in> set BooleanSupportedAttributes"
    and "attributes st el (''aria-'' @ toLowerCase name) = Some s"
  shows "(s = ''true'' \<longrightarrow> get h el name st = Inr (RBool True))
       \<and> (s = ''false'' \<longrightarrow> get h el name st = Inr (RBool False))
       \<and> (s \<noteq> ''true'' \<and> s \<noteq> ''false'' \<and> s \<notin> set (declared_tokens (toLowerCase name))
            \<longrightarrow> get h el name st = Inr RNull)"
  using assms by (simp add: get_boolean_supported get_boolean_def)

theorem strict_boolean_read_witness:
  "toLowerCase ''Expanded'' \<in> set BooleanSupportedAttributes
   \<and> get plain_host 0 ''Expanded''
        (empty_dom\<lparr>attributes := (\<lambda>e. [''aria-expanded'' \<mapsto> '' true''])\<rparr>) = Inr RNull
   \<and> get plain_host 0 ''Expanded''
        (empty_dom\<lparr>attributes := (\<lambda>e. [''aria-expanded'' \<mapsto> ''TRUE''])\<rparr>) = Inr RNull
   \<and> get plain_host 0 ''Expanded''
        (empty_dom\<lparr>attributes := (\<lambda>e. [''aria-expanded'' \<mapsto> ''true''])\<rparr>) = Inr (RBool True)
   \<and> get plain_host 0 ''Expanded''
        (empty_dom\<lparr>attributes := (\<lambda>e. [''aria-expanded'' \<mapsto> ''false''])\<rparr>) = Inr (RBool False)"
proof -
  have l: "toLowerCase ''Expanded'' = ''expanded''"
    by code_simp
  have m: "toLowerCase ''Expanded'' \<in> set BooleanSupportedAttributes"
    by (simp add: l BooleanSupportedAttributes_def)
  have t: "declared_tokens ''expanded'' = [''undefined'']"
    by (simp add: declared_tokens_def)
  show ?thesis
    using m
      strict_boolean_read [OF m, of "empty_dom\<lparr>attributes := (\<lambda>e. [''aria-expanded'' \<mapsto> '' true''])\<rparr>" 0 "'' true''" plain_host]
      strict_boolean_read [OF m, of "empty_dom\<lparr>attributes := (\<lambda>e. [''aria-expanded'' \<mapsto> ''TRUE''])\<rparr>" 0 "''TRUE''" plain_host]
      strict_boolean_read [OF m, of "empty_dom\<lparr>attributes := (\<lambda>e. [''aria-expanded'' \<mapsto> ''true''])\<rparr>" 0 "''true''" plain_host]
      strict_boolean_read [OF m, of "empty_dom\<lparr>attributes := (\<lambda>e. [''aria-expanded'' \<mapsto> ''false''])\<rparr>" 0 "''false''" plain_host]
    by (simp add: l t)
qed

text \<open>
  Claim C8: for every attribute that takes a boolean, \<^verbatim>\<open>set(name)\<close> with no value stores
  the string \<^verbatim>\<open>"true"\<close> under \<^verbatim>\<open>aria-<name>\<close>, and \<^verbatim>\<open>get(name)\<close> then returns the boolean
  \<^verbatim>\<open>true\<close>.
\<close>

theorem omitted_value_defaults_to_true:
  assumes "toLowerCase name \<in> set BooleanSupportedAttributes"
  shows "set_attr h el name VUndefined st = (Inr (), setAttr el (toLowerCase name) ''true'' st)
       \<and> attributes (snd (set_attr h el name VUndefined st)) el (''aria-'' @ toLowerCase name)
           = Some ''true''
       \<and> get h el name (snd (set_attr h el name VUndefined st)) = Inr (RBool True)"
  using assms
  by (simp add: set_attr_boolean_supported set_boolean_def BooleanToString_def
      get_boolean_supported get_boolean_def attributes_setAttr)

theorem omitted_value_defaults_to_true_witness:
  "toLowerCase ''checked'' \<in> set BooleanSupportedAttributes
   \<and> attributes (snd (set_attr plain_host 0 ''checked'' VUndefined empty_dom)) 0 ''aria-checked''
        = Some ''true''
   \<and> get plain_host 0 ''checked'' (snd (set_attr plain_host 0 ''checked'' VUndefined empty_dom))
        = Inr (RBool True)"
proof -
  have l: "toLowerCase ''checked'' = ''checked''"
    by (simp add: toLowerCase_def lower_char_def)
  have m: "toLowerCase ''checked'' \<in> set BooleanSupportedAttributes"
    by (simp add: l BooleanSupportedAttributes_def)
  note w = omitted_value_defaults_to_true [OF m, of plain_host 0 empty_dom, THEN conjunct2]
  show ?thesis using m w by (simp add: l)
qed


section \<open>Names outside the vocabulary\<close>

lemma aria_attributes_count: "length aria_attributes = 48 \<and> distinct aria_attributes"
  by (simp add: aria_attributes_def attribute_lists)


lemma set_aria_attributes:
  "a \<in> set aria_attributes \<longleftrightarrow>
     a \<in> set string_attributes \<or> a \<in> set idref_attributes \<or> a \<in> set idref_list_attributes
     \<or> a \<in> set boolean_only_attributes \<or> a \<in> set boolean_undefined_attributes
     \<or> a \<in> set boolean_mixed_attributes
     \<or> a = ''current'' \<or> a = ''haspopup'' \<or> a = ''invalid'' \<or> a = ''autocomplete''
     \<or> a = ''dropeffect'' \<or> a = ''live'' \<or> a = ''orientation'' \<or> a = ''relevant''
     \<or> a = ''sort'' \<or> a \<in> set number_attributes"
  unfolding aria_attributes_def boolean_mixed_attributes_def set_append Un_iff list.set
    insert_iff empty_iff
  by (intro iffI; elim disjE; simp)

lemma aria_cases:
  assumes "a \<in> set aria_attributes"
  obtains "a \<in> set string_attributes" | "a \<in> set idref_attributes"
    | "a \<in> set idref_list_attributes" | "a \<in> set boolean_only_attributes"
    | "a \<in> set boolean_undefined_attributes" | "a \<in> set boolean_mixed_attributes"
    | "a = ''current''" | "a = ''haspopup''" | "a = ''invalid''"
    | "a = ''autocomplete''" | "a = ''dropeffect''" | "a = ''live''"
    | "a = ''orientation''" | "a = ''relevant''" | "a = ''sort''"
    | "a \<in> set number_attributes"
  using assms unfolding set_aria_attributes by (elim disjE)

lemma get_known:
  assumes "toLowerCase name \<in> set aria_attributes"
  shows "get h el name st \<noteq> Inl InvalidAttribute"
  using assms
proof (cases rule: aria_cases)
  case 1 then show ?thesis by (simp add: get_string_attribute)
next
  case 2 then show ?thesis by (simp add: get_idref_attribute)
next
  case 3 then show ?thesis by (simp add: get_idref_list_attribute)
next
  case 4 then show ?thesis by (simp add: get_boolean_only_attribute)
next
  case 5 then show ?thesis by (simp add: get_boolean_undefined_attribute)
next
  case 6 then show ?thesis by (simp add: get_boolean_mixed_attribute)
next
  case 7 then show ?thesis by (simp add: get_current)
next
  case 8 then show ?thesis by (simp add: get_haspopup)
next
  case 9 then show ?thesis by (simp add: get_invalid)
next
  case 10 then show ?thesis by (simp add: get_autocomplete)
next
  case 11 then show ?thesis by (simp add: get_dropeffect)
next
  case 12 then show ?thesis by (simp add: get_live)
next
  case 13 then show ?thesis by (simp add: get_orientation)
next
  case 14 then show ?thesis by (simp add: get_relevant)
next
  case 15 then show ?thesis by (simp add: get_sort)
next
  case 16 then show ?thesis by (simp add: get_number_attribute)
qed

lemma aria_attributes_lower: "list_all (\<lambda>a. toLowerCase a = a) aria_attributes"
  by (simp add: aria_attributes_def attribute_lists toLowerCase_def lower_char_def)

text \<open>
  Claim C9 speaks of a closed vocabulary of 38 names. The switch of the code has 48 case
  labels, all different, and \<^verbatim>\<open>get\<close> knows every one of them: 48 names, not 38, are
  recognised.
\<close>

theorem recognised_names_count:
  "length (filter get_accepts (remdups aria_attributes)) = 48"
proof -
  have "get_accepts a" if "a \<in> set aria_attributes" for a
  proof -
    from that aria_attributes_lower have "toLowerCase a = a"
      by (simp add: list_all_iff)
    with that get_known [of a plain_host 0 empty_dom] show ?thesis
      by (simp add: get_accepts_def)
  qed
  then have "filter get_accepts (remdups aria_attributes) = remdups aria_attributes"
    by simp
  with aria_attributes_count show ?thesis
    by (simp add: distinct_remdups_id)
qed

text \<open>
  Claim C9 as amended: the vocabulary has 48 entries, and for every name whose lowercase
  form is outside it each of \<^verbatim>\<open>set\<close>, \<^verbatim>\<open>get\<close> and \<^verbatim>\<open>unset\<close> fails with
  \<open>InvalidAttribute\<close>, leaving the document as it was.
\<close>

theorem unknown_attribute_fails:
  "length aria_attributes = 48 \<and> distinct aria_attributes
   \<and> (toLowerCase name \<notin> set aria_attributes \<longrightarrow>
        set_attr h el name v st = (Inl InvalidAttribute, st)
        \<and> get h el name st = Inl InvalidAttribute
        \<and> unset el name st = (Inl InvalidAttribute, st))"
  using aria_attributes_count by (simp add: set_attr_unknown get_unknown unset_unknown)

lemma frobnicate_unknown: "toLowerCase ''frobnicate'' \<notin> set aria_attributes"
  by (simp add: toLowerCase_def lower_char_def aria_attributes_def attribute_lists)

theorem unknown_attribute_fails_witness:
  "toLowerCase ''frobnicate'' \<notin> set aria_attributes
   \<and> set_attr plain_host 0 ''frobnicate'' (VBool True) empty_dom = (Inl InvalidAttribute, empty_dom)
   \<and> get plain_host 0 ''frobnicate'' empty_dom = Inl InvalidAttribute
   \<and> unset 0 ''frobnicate'' empty_dom = (Inl InvalidAttribute, empty_dom)"
  using unknown_attribute_fails [of "''frobnicate''" plain_host 0 "VBool True" empty_dom]
    frobnicate_unknown by simp

text \<open>
  For every recognised name that is not a number attribute, an attribute that is not
  there reads as \<^verbatim>\<open>null\<close>.
\<close>

lemma get_absent_other:
  assumes "toLowerCase name \<in> set aria_attributes"
    and "toLowerCase name \<notin> set number_attributes"
    and "attributes st el (''aria-'' @ toLowerCase name) = None"
  shows "get h el name st = Inr RNull"
  using assms(1)
proof (cases rule: aria_cases)
  case 1 with assms(3) show ?thesis by (simp add: get_string_attribute as_is_def)
next
  case 2 with assms(3) show ?thesis by (simp add: get_idref_attribute as_is_def)
next
  case 3 with assms(3) show ?thesis by (simp add: get_idref_list_attribute as_is_def)
next
  case 4 with assms(3) show ?thesis by (simp add: get_boolean_only_attribute get_boolean_def)
next
  case 5 with assms(3) show ?thesis
    by (simp add: get_boolean_undefined_attribute get_boolean_def)
next
  case 6 with assms(3) show ?thesis by (simp add: get_boolean_mixed_attribute get_boolean_def)
next
  case 7 with assms(3) show ?thesis by (simp add: get_current get_boolean_def)
next
  case 8 with assms(3) show ?thesis by (simp add: get_haspopup get_boolean_def)
next
  case 9 with assms(3) show ?thesis by (simp add: get_invalid get_boolean_def)
next
  case 10 with assms(3) show ?thesis by (simp add: get_autocomplete get_token_def)
next
  case 11 with assms(3) show ?thesis by (simp add: get_dropeffect get_token_def)
next
  case 12 with assms(3) show ?thesis by (simp add: get_live get_token_def)
next
  case 13 with assms(3) show ?thesis by (simp add: get_orientation get_token_def)
next
  case 14 with assms(3) show ?thesis by (simp add: get_relevant get_token_def)
next
  case 15 with assms(3) show ?thesis by (simp add: get_sort get_token_def)
next
  case 16 with assms(2) show ?thesis by simp
qed

section \<open>Printing and reading numbers\<close>

lemma digit_char_props:
  assumes "d < 10"
  shows "is_digit (digit_char d)" and "digit_value (digit_char d) = d"
    and "\<not> StrWhiteSpaceChar (digit_char d)"
  using assms by (simp_all add: is_digit_def digit_value_def digit_char_def StrWhiteSpaceChar_def)

lemma is_digit_not_sign: "is_digit c \<Longrightarrow> c \<noteq> CHR ''+'' \<and> c \<noteq> CHR ''-''"
  by (auto simp: is_digit_def)

lemma is_digit_not_space: "is_digit c \<Longrightarrow> \<not> StrWhiteSpaceChar c"
  by (auto simp: is_digit_def StrWhiteSpaceChar_def)

lemma decimal_not_Nil: "decimal n \<noteq> []"
  by (subst decimal.simps) simp

lemma decimal_digits: "list_all is_digit (decimal n)"
proof (induction n rule: decimal.induct)
  case (1 n)
  show ?case
  proof (cases "n < 10")
    case True
    then show ?thesis by (subst decimal.simps) (simp add: digit_char_props)
  next
    case False
    with 1 show ?thesis by (subst decimal.simps) (simp add: digit_char_props)
  qed
qed

lemma decimal_value: "foldl (\<lambda>a c. 10 * a + digit_value c) 0 (decimal n) = n"
proof (induction n rule: decimal.induct)
  case (1 n)
  show ?case
  proof (cases "n < 10")
    case True
    then show ?thesis by (subst decimal.simps) (simp add: digit_char_props)
  next
    case False
    with 1 show ?thesis by (subst decimal.simps) (simp add: digit_char_props)
  qed
qed

lemma DecimalDigits_decimal: "DecimalDigits (decimal n) = Some n"
  by (simp add: DecimalDigits_def decimal_not_Nil decimal_digits decimal_value)

lemma trim_id:
  assumes "s \<noteq> []" and "\<not> StrWhiteSpaceChar (hd s)" and "\<not> StrWhiteSpaceChar (last s)"
  shows "trim s = s"
proof -
  from assms have "dropWhile StrWhiteSpaceChar s = s"
    by (cases s) simp_all
  moreover from assms have "dropWhile StrWhiteSpaceChar (rev s) = rev s"
    by (cases "rev s") (simp_all add: hd_rev)
  ultimately show ?thesis by (simp add: trim_def)
qed

lemma trim_decimal: "trim (decimal n) = decimal n"
proof -
  have "hd (decimal n) \<in> set (decimal n)" "last (decimal n) \<in> set (decimal n)"
    by (simp_all add: decimal_not_Nil)
  with decimal_digits [of n] have "is_digit (hd (decimal n))" "is_digit (last (decimal n))"
    by (simp_all add: list_all_iff)
  then show ?thesis
    by (intro trim_id) (simp_all add: decimal_not_Nil is_digit_not_space)
qed

lemma trim_show_int: "trim (show_int i) = show_int i"
proof (cases "i < 0")
  case True
  have "last (decimal (nat (- i))) \<in> set (decimal (nat (- i)))"
    by (simp add: decimal_not_Nil)
  with decimal_digits [of "nat (- i)"] have "is_digit (last (decimal (nat (- i))))"
    by (simp add: list_all_iff)
  then have l: "\<not> StrWhiteSpaceChar (last (decimal (nat (- i))))"
    by (rule is_digit_not_space)
  have m: "\<not> StrWhiteSpaceChar CHR ''-''"
    by (simp add: StrWhiteSpaceChar_def)
  from True l m show ?thesis
    by (intro trim_id) (simp_all add: show_int_def decimal_not_Nil)
next
  case False
  then show ?thesis by (simp add: show_int_def trim_decimal)
qed

lemma StrDecimalInteger_show_int: "StrDecimalInteger (show_int i) = Some i"
proof (cases "i < 0")
  case True
  then show ?thesis
    by (simp add: show_int_def StrDecimalInteger_def DecimalDigits_decimal)
next
  case False
  obtain c cs where d: "decimal (nat i) = c # cs"
    using decimal_not_Nil [of "nat i"] by (cases "decimal (nat i)") auto
  with decimal_digits [of "nat i"] have "is_digit c" by simp
  then have "c \<noteq> CHR ''+''" "c \<noteq> CHR ''-''" using is_digit_not_sign by auto
  with False d DecimalDigits_decimal [of "nat i"] show ?thesis
    by (simp add: show_int_def StrDecimalInteger_def)
qed

lemma show_int_not_Nil: "show_int i \<noteq> []"
  by (simp add: show_int_def decimal_not_Nil)

lemma StringToNumber_show_int:
  "safe_integer i \<Longrightarrow> StringToNumber h (show_int i) = Fin (of_int i)"
  by (simp add: StringToNumber_def trim_show_int show_int_not_Nil StrDecimalInteger_show_int)

lemma number_round_trip:
  assumes "plain_number n"
  shows "StringToNumber h (NumberToString h n) = n"
proof (cases n)
  case NaN
  with assms show ?thesis by (simp add: plain_number_def)
next
  case PosInf
  have "StringToNumber h ''Infinity'' = PosInf"
    by (simp add: StringToNumber_def trim_def StrWhiteSpaceChar_def StrDecimalInteger_def
        DecimalDigits_def is_digit_def)
  with PosInf show ?thesis by (simp add: NumberToString_def)
next
  case NegInf
  have "StringToNumber h ''-Infinity'' = NegInf"
    by (simp add: StringToNumber_def trim_def StrWhiteSpaceChar_def StrDecimalInteger_def
        DecimalDigits_def is_digit_def)
  with NegInf show ?thesis by (simp add: NumberToString_def)
next
  case (Fin r)
  with assms have r: "r = of_int \<lfloor>r\<rfloor>" and s: "safe_integer \<lfloor>r\<rfloor>"
    by (simp_all add: plain_number_def)
  from r s have "NumberToString h (Fin r) = show_int \<lfloor>r\<rfloor>"
    by (simp add: NumberToString_def)
  with r s Fin show ?thesis
    using StringToNumber_show_int [OF s, of h] by simp
qed

lemma dropWhile_all: "list_all P xs \<Longrightarrow> dropWhile P xs = []"
  by (induction xs) simp_all

lemma trim_blank: "list_all StrWhiteSpaceChar s \<Longrightarrow> trim s = []"
  by (simp add: trim_def dropWhile_all)

lemma StringToNumber_blank: "list_all StrWhiteSpaceChar s \<Longrightarrow> StringToNumber h s = Fin 0"
  by (simp add: StringToNumber_def trim_blank)

lemma decimal_zero: "decimal 0 = ''0''"
  by code_simp

lemma NumberToString_zero: "NumberToString h (Fin 0) = ''0''"
  by (simp add: NumberToString_def safe_integer_def show_int_def decimal_zero)

section \<open>Resolving identifiers\<close>

lemma elements_of_Nil: "elements_of [] = []"
  by (simp add: elements_of_def)

lemma elements_of_element: "elements_of (VElement e # vs) = e # elements_of vs"
  by (simp add: elements_of_def element_of_def)

lemmas elements_of_simps = elements_of_Nil elements_of_element

lemma elements_of_map_VElement: "elements_of (map VElement es) = es"
  by (induction es) (simp_all add: elements_of_simps)

lemma decimal_inject: "decimal m = decimal n \<Longrightarrow> m = n"
  by (metis decimal_value)

lemma aria_key_not_id: "''aria-'' @ a \<noteq> ''id''"
  by simp

lemma set_elem_id_simps:
  "idCounter (set_elem_id e i st) = idCounter st"
  "elem_id (set_elem_id e i st) e' = (if e' = e then i else elem_id st e')"
  "attributes (set_elem_id e i st) e' k
     = (if e' = e \<and> k = ''id'' then Some i else attributes st e' k)"
  by (simp_all add: set_elem_id_def elem_id_def)

lemma elem_id_counter: "elem_id (st\<lparr>idCounter := c\<rparr>) = elem_id st"
  by (rule ext) (simp add: elem_id_def)

lemma getId_element_present:
  "elem_id st e \<noteq> [] \<Longrightarrow> getId (VElement e) st = (elem_id st e, st)"
  by (simp add: getId_def)

lemma getId_element_absent:
  "elem_id st e = [] \<Longrightarrow>
   getId (VElement e) st =
     (''easy-aria-id-'' @ decimal (idCounter st),
      set_elem_id e (''easy-aria-id-'' @ decimal (idCounter st))
        (st\<lparr>idCounter := idCounter st + 1\<rparr>))"
  by (simp add: getId_def generateId_def set_elem_id_simps)

lemma getId_element_result:
  assumes "getId (VElement e) st = (i, st')"
  shows "elem_id st' e = i" and "i \<noteq> []"
proof -
  have "elem_id st' e = i \<and> i \<noteq> []"
  proof (cases "elem_id st e = []")
    case True
    from assms have "(i, st') = getId (VElement e) st" by simp
    also note getId_element_absent [OF True]
    finally show ?thesis by (simp add: set_elem_id_simps)
  next
    case False
    with assms show ?thesis by (auto simp: getId_element_present)
  qed
  then show "elem_id st' e = i" and "i \<noteq> []" by simp_all
qed

lemma getId_frame:
  assumes "getId v st = (i, st')"
  shows "k \<noteq> ''id'' \<Longrightarrow> attributes st' e' k = attributes st e' k"
    and "idCounter st \<le> idCounter st'"
    and "elem_id st e' \<noteq> [] \<Longrightarrow> elem_id st' e' = elem_id st e'"
    and "elem_id st e' \<noteq> [] \<or> v \<noteq> VElement e' \<Longrightarrow>
           attributes st' e' ''id'' = attributes st e' ''id''"
proof -
  have "(k \<noteq> ''id'' \<longrightarrow> attributes st' e' k = attributes st e' k)
      \<and> idCounter st \<le> idCounter st'
      \<and> (elem_id st e' \<noteq> [] \<longrightarrow> elem_id st' e' = elem_id st e')
      \<and> (elem_id st e' \<noteq> [] \<or> v \<noteq> VElement e' \<longrightarrow>
           attributes st' e' ''id'' = attributes st e' ''id'')"
  proof (cases v)
    case (VElement e)
    show ?thesis
    proof (cases "elem_id st e = []")
      case True
      from assms VElement have "(i, st') = getId (VElement e) st" by simp
      also note getId_element_absent [OF True]
      finally have "st' = set_elem_id e (''easy-aria-id-'' @ decimal (idCounter st))
          (st\<lparr>idCounter := idCounter st + 1\<rparr>)" by simp
      with True VElement show ?thesis
        by (auto simp: set_elem_id_simps elem_id_counter)
    next
      case False
      with assms VElement show ?thesis by (simp add: getId_element_present)
    qed
  qed (use assms in \<open>auto simp: getId_def\<close>)
  then show "k \<noteq> ''id'' \<Longrightarrow> attributes st' e' k = attributes st e' k"
    and "idCounter st \<le> idCounter st'"
    and "elem_id st e' \<noteq> [] \<Longrightarrow> elem_id st' e' = elem_id st e'"
    and "elem_id st e' \<noteq> [] \<or> v \<noteq> VElement e' \<Longrightarrow>
           attributes st' e' ''id'' = attributes st e' ''id''"
    by simp_all
qed

lemma getId_twice:
  assumes "getId (VElement e) st = (i, st1)"
  shows "getId (VElement e) st1 = (i, st1)"
  using getId_element_result [OF assms] by (simp add: getId_element_present)

lemma element_of_member: "e \<in> set (element_of v) \<longleftrightarrow> v = VElement e"
  by (cases v) (auto simp: element_of_def)

lemma elements_of_Cons: "elements_of (v # vs) = element_of v @ elements_of vs"
  by (simp add: elements_of_def)

lemma getIds_frame:
  "getIds vs st = (ids, st') \<Longrightarrow>
     (k \<noteq> ''id'' \<longrightarrow> attributes st' e' k = attributes st e' k)
     \<and> idCounter st \<le> idCounter st'
     \<and> (elem_id st e' \<noteq> [] \<longrightarrow> elem_id st' e' = elem_id st e')
     \<and> (elem_id st e' \<noteq> [] \<or> e' \<notin> set (elements_of vs) \<longrightarrow>
           attributes st' e' ''id'' = attributes st e' ''id'')
     \<and> length ids = length vs"
proof (induction vs arbitrary: st ids st')
  case Nil
  then show ?case by (simp add: elements_of_Nil)
next
  case (Cons v vs)
  obtain i st1 where g: "getId v st = (i, st1)" by (cases "getId v st")
  obtain js st2 where r: "getIds vs st1 = (js, st2)" by (cases "getIds vs st1")
  from Cons.prems g r have e: "ids = i # js" "st' = st2" by simp_all
  note f = getId_frame(1) [OF g, where k = k and e' = e'] getId_frame(2) [OF g]
      getId_frame(3,4) [OF g, where e' = e']
    and ih = Cons.IH [OF r]
  have "elem_id st e' \<noteq> [] \<or> e' \<notin> set (elements_of (v # vs)) \<longrightarrow>
           attributes st2 e' ''id'' = attributes st e' ''id''"
  proof
    assume "elem_id st e' \<noteq> [] \<or> e' \<notin> set (elements_of (v # vs))"
    then have "elem_id st e' \<noteq> [] \<or> (v \<noteq> VElement e' \<and> e' \<notin> set (elements_of vs))"
      by (auto simp: elements_of_Cons element_of_member)
    with f(3,4) have "attributes st1 e' ''id'' = attributes st e' ''id''"
      and "elem_id st1 e' \<noteq> [] \<or> e' \<notin> set (elements_of vs)" by auto
    with ih show "attributes st2 e' ''id'' = attributes st e' ''id''" by simp
  qed
  with f ih e show ?case by auto
qed

lemma getIds_ids:
  "getIds vs st = (ids, st') \<Longrightarrow>
     filter (\<lambda>i. i \<noteq> []) ids = map (elem_id st') (elements_of vs)
     \<and> list_all (\<lambda>e. elem_id st' e \<noteq> []) (elements_of vs)"
proof (induction vs arbitrary: st ids st')
  case Nil
  then show ?case by (simp add: elements_of_Nil)
next
  case (Cons v vs)
  obtain i st1 where g: "getId v st = (i, st1)" by (cases "getId v st")
  obtain js st2 where r: "getIds vs st1 = (js, st2)" by (cases "getIds vs st1")
  from Cons.prems g r have e: "ids = i # js" "st' = st2" by simp_all
  note ih = Cons.IH [OF r]
  show ?case
  proof (cases v)
    case (VElement x)
    from g VElement have x: "elem_id st1 x = i" "i \<noteq> []"
      using getId_element_result by blast+
    with getIds_frame [OF r, where e' = x and k = "[]"] have "elem_id st2 x = i" by simp
    with ih e VElement x show ?thesis by (simp add: elements_of_element)
  qed (use g ih e in \<open>simp_all add: getId_def elements_of_def element_of_def\<close>)
qed

lemma getIds_fresh:
  "getIds vs st = (ids, st') \<Longrightarrow> e \<in> set (elements_of vs) \<Longrightarrow> elem_id st e = [] \<Longrightarrow>
     \<exists>k. idCounter st \<le> k \<and> k < idCounter st'
         \<and> elem_id st' e = ''easy-aria-id-'' @ decimal k"
proof (induction vs arbitrary: st ids st')
  case Nil
  then show ?case by (simp add: elements_of_Nil)
next
  case (Cons v vs)
  obtain i st1 where g: "getId v st = (i, st1)" by (cases "getId v st")
  obtain js st2 where r: "getIds vs st1 = (js, st2)" by (cases "getIds vs st1")
  from Cons.prems(1) g r have e: "ids = i # js" "st' = st2" by simp_all
  note f1 = getId_frame [OF g] and f2 = getIds_frame [OF r, where e' = e and k = "[]"]
  show ?case
  proof (cases "v = VElement e")
    case True
    from g have "st1 = snd (getId v st)" by simp
    also from True Cons.prems(3) have
      "\<dots> = set_elem_id e (''easy-aria-id-'' @ decimal (idCounter st))
               (st\<lparr>idCounter := idCounter st + 1\<rparr>)"
      by (simp add: getId_element_absent)
    finally have
      "st1 = set_elem_id e (''easy-aria-id-'' @ decimal (idCounter st))
               (st\<lparr>idCounter := idCounter st + 1\<rparr>)" .
    then have c: "idCounter st1 = idCounter st + 1"
      and i: "elem_id st1 e = ''easy-aria-id-'' @ decimal (idCounter st)"
      by (simp_all add: set_elem_id_simps)
    from i f2 have "elem_id st2 e = ''easy-aria-id-'' @ decimal (idCounter st)"
      by simp
    moreover from c f2 have "idCounter st < idCounter st2" by simp
    ultimately show ?thesis using e by auto
  next
    case False
    with Cons.prems(2) have m: "e \<in> set (elements_of vs)"
      by (auto simp: elements_of_Cons element_of_member)
    show ?thesis
    proof (cases "elem_id st1 e = []")
      case True
      from Cons.IH [OF r m True] f1(2) e show ?thesis
        by (meson le_trans)
    next
      case n: False
      from False f1(4) [of e] have "attributes st1 e ''id'' = attributes st e ''id''" by simp
      then have "elem_id st1 e = elem_id st e" by (simp add: elem_id_def)
      with n Cons.prems(3) show ?thesis by simp
    qed
  qed
qed

lemma getIds_sequence:
  "distinct es \<Longrightarrow> list_all (\<lambda>e. elem_id st e = []) es \<Longrightarrow>
   getIds (map VElement es) st = (ids, st') \<Longrightarrow>
     ids = map (\<lambda>k. ''easy-aria-id-'' @ decimal (idCounter st + k)) [0..<length es]
     \<and> idCounter st' = idCounter st + length es"
proof (induction es arbitrary: st ids st')
  case Nil
  then show ?case by (simp add: elements_of_Nil)
next
  case (Cons e es)
  let ?st1 = "set_elem_id e (''easy-aria-id-'' @ decimal (idCounter st))
         (st\<lparr>idCounter := idCounter st + 1\<rparr>)"
  from Cons.prems(2) have g: "getId (VElement e) st = (''easy-aria-id-'' @ decimal (idCounter st), ?st1)"
    by (simp add: getId_element_absent)
  obtain js st2 where r: "getIds (map VElement es) ?st1 = (js, st2)"
    by (cases "getIds (map VElement es) ?st1")
  from Cons.prems(3) g r have e: "ids = (''easy-aria-id-'' @ decimal (idCounter st)) # js" "st' = st2"
    by simp_all
  have c: "idCounter ?st1 = idCounter st + 1" by (simp add: set_elem_id_simps)
  from Cons.prems(1,2) have "list_all (\<lambda>x. elem_id ?st1 x = []) es"
    by (auto simp: list_all_iff set_elem_id_simps elem_id_counter)
  with Cons.IH [OF _ _ r] Cons.prems(1)
  have ih: "js = map (\<lambda>k. ''easy-aria-id-'' @ decimal (idCounter ?st1 + k)) [0..<length es]"
    "idCounter st2 = idCounter ?st1 + length es" by simp_all
  have "map (\<lambda>k. ''easy-aria-id-'' @ decimal (idCounter st + k)) [0..<length (e # es)]
      = (''easy-aria-id-'' @ decimal (idCounter st))
        # map (\<lambda>k. ''easy-aria-id-'' @ decimal (idCounter st + Suc k)) [0..<length es]"
    by (simp add: upt_rec [of 0] map_Suc_upt [symmetric] del: upt_Suc)
  with ih e c show ?case by simp
qed

lemma generated_distinct:
  "distinct (map (\<lambda>k. ''easy-aria-id-'' @ decimal (c + k)) [0..<n])"
  by (auto simp: distinct_map inj_on_def dest: decimal_inject)

section \<open>Blank strings as numbers\<close>

text \<open>
  Claim C10: for every number attribute, a string that is empty or made of white space
  only is the number \<open>0\<close>: \<^verbatim>\<open>set\<close> with it succeeds and leaves the string \<^verbatim>\<open>"0"\<close> under
  \<^verbatim>\<open>aria-<name>\<close>, and \<^verbatim>\<open>get\<close> on such a stored string returns \<open>0\<close>, not \<^verbatim>\<open>null\<close>.
\<close>

theorem blank_string_is_zero:
  assumes "toLowerCase name \<in> set number_attributes" and "list_all StrWhiteSpaceChar s"
  shows "fst (set_attr h el name (VStr s) st) = Inr ()
       \<and> attributes (snd (set_attr h el name (VStr s) st)) el (''aria-'' @ toLowerCase name)
           = Some ''0''
       \<and> (attributes st el (''aria-'' @ toLowerCase name) = Some s
            \<longrightarrow> get h el name st = Inr (RNum (Fin 0)))"
  using assms
  by (simp add: set_attr_number set_number_def NumberOfValue_def StringToNumber_blank
      NumberToString_zero get_number_attribute get_number_def NumberOfAttribute_def
      attributes_setAttr)

theorem blank_string_is_zero_witness:
  "toLowerCase ''colcount'' \<in> set number_attributes
   \<and> list_all StrWhiteSpaceChar [] \<and> list_all StrWhiteSpaceChar [CHR 0x09, CHR '' '', CHR 0xA0]
   \<and> fst (set_attr plain_host 0 ''colcount'' (VStr []) empty_dom) = Inr ()
   \<and> attributes (snd (set_attr plain_host 0 ''colcount'' (VStr []) empty_dom)) 0
        ''aria-colcount'' = Some ''0''
   \<and> attributes (snd (set_attr plain_host 0 ''colcount''
          (VStr [CHR 0x09, CHR '' '', CHR 0xA0]) empty_dom)) 0 ''aria-colcount'' = Some ''0''
   \<and> get plain_host 0 ''colcount''
        (empty_dom\<lparr>attributes := (\<lambda>e. [''aria-colcount'' \<mapsto> []])\<rparr>) = Inr (RNum (Fin 0))
   \<and> get plain_host 0 ''colcount''
        (empty_dom\<lparr>attributes := (\<lambda>e. [''aria-colcount'' \<mapsto> [CHR 0x09, CHR '' '', CHR 0xA0]])\<rparr>)
        = Inr (RNum (Fin 0))"
proof -
  let ?b = "[CHR 0x09, CHR '' '', CHR 0xA0]"
  have l: "''aria-'' @ toLowerCase ''colcount'' = ''aria-colcount''"
    by (simp add: toLowerCase_def lower_char_def)
  have m: "toLowerCase ''colcount'' \<in> set number_attributes"
    by (simp add: toLowerCase_def lower_char_def number_attributes_def)
  have e: "list_all StrWhiteSpaceChar []" by simp
  have b: "list_all StrWhiteSpaceChar ?b" by (simp add: StrWhiteSpaceChar_def)
  have x: "attributes (empty_dom\<lparr>attributes := (\<lambda>e. [''aria-colcount'' \<mapsto> []])\<rparr>) 0
      (''aria-'' @ toLowerCase ''colcount'') = Some []"
    and y: "attributes (empty_dom\<lparr>attributes := (\<lambda>e. [''aria-colcount'' \<mapsto> ?b])\<rparr>) 0
      (''aria-'' @ toLowerCase ''colcount'') = Some ?b"
    by (simp_all add: toLowerCase_def lower_char_def)
  note w1 = blank_string_is_zero [OF m e, of plain_host 0 empty_dom]
    and w2 = blank_string_is_zero [OF m b, of plain_host 0 empty_dom]
    and w3 = blank_string_is_zero [OF m e, of plain_host 0
        "empty_dom\<lparr>attributes := (\<lambda>e. [''aria-colcount'' \<mapsto> []])\<rparr>"]
    and w4 = blank_string_is_zero [OF m b, of plain_host 0
        "empty_dom\<lparr>attributes := (\<lambda>e. [''aria-colcount'' \<mapsto> ?b])\<rparr>"]
  note 1 = w1 [THEN conjunct1] and 2 = w1 [THEN conjunct2, THEN conjunct1, unfolded l]
    and 3 = w2 [THEN conjunct2, THEN conjunct1, unfolded l]
    and 4 = mp [OF w3 [THEN conjunct2, THEN conjunct2] x]
    and 5 = mp [OF w4 [THEN conjunct2, THEN conjunct2] y]
  from m e b 1 2 3 4 5 show ?thesis by (intro conjI)
qed

section \<open>Identifiers are unique and stable\<close>

lemma generateId_never_reused:
  assumes "generateId st = (i, st1)" and "idCounter st1 \<le> idCounter st2"
    and "generateId st2 = (j, st3)"
  shows "i \<noteq> j"
proof
  assume "i = j"
  with assms(1,3) have "decimal (idCounter st) = decimal (idCounter st2)"
    by (auto simp: generateId_def)
  then have "idCounter st = idCounter st2" by (rule decimal_inject)
  moreover from assms(1) have "idCounter st1 = idCounter st + 1"
    by (auto simp: generateId_def)
  ultimately show False using assms(2) by simp
qed

text \<open>
  Claim C6: resolving \<open>N\<close> distinct handles without identifier, one after the other,
  gives \<open>N\<close> pairwise distinct generated identifiers, numbered from the counter upwards;
  the counter never decreases, and an identifier generated once is not generated again
  in any later state; a handle that has an identifier resolves to it and nothing changes;
  resolving the same handle a second time gives the same identifier.
\<close>

theorem identifier_resolution:
  "(distinct es \<and> list_all (\<lambda>e. elem_id st e = []) es
      \<and> getIds (map VElement es) st = (ids, st')
    \<longrightarrow> length ids = length es \<and> distinct ids
        \<and> ids = map (\<lambda>k. ''easy-aria-id-'' @ decimal (idCounter st + k)) [0..<length es]
        \<and> map (elem_id st') es = ids
        \<and> idCounter st' = idCounter st + length es)
   \<and> (getId v sa = (a, sa') \<longrightarrow> idCounter sa \<le> idCounter sa')
   \<and> (generateId sb = (b, sb') \<and> idCounter sb' \<le> idCounter sc \<and> generateId sc = (c, sc')
        \<longrightarrow> b \<noteq> c)
   \<and> (elem_id sd d \<noteq> [] \<longrightarrow> getId (VElement d) sd = (elem_id sd d, sd))
   \<and> (getId (VElement e) se = (i, se') \<longrightarrow> getId (VElement e) se' = (i, se'))"
proof (intro conjI impI)
  assume a: "distinct es \<and> list_all (\<lambda>e. elem_id st e = []) es
      \<and> getIds (map VElement es) st = (ids, st')"
  then have g: "getIds (map VElement es) st = (ids, st')" by simp
  from a getIds_sequence [of es st ids st']
  have s: "ids = map (\<lambda>k. ''easy-aria-id-'' @ decimal (idCounter st + k)) [0..<length es]"
    and c: "idCounter st' = idCounter st + length es" by simp_all
  from s show "ids = map (\<lambda>k. ''easy-aria-id-'' @ decimal (idCounter st + k)) [0..<length es]" .
  from c show "idCounter st' = idCounter st + length es" .
  from s show "length ids = length es" by simp
  from s generated_distinct [of "idCounter st" "length es"] show "distinct ids" by simp
  from getIds_ids [OF g] have "filter (\<lambda>i. i \<noteq> []) ids = map (elem_id st') es"
    by (simp add: elements_of_map_VElement)
  moreover from s have "filter (\<lambda>i. i \<noteq> []) ids = ids"
    by (simp add: filter_id_conv)
  ultimately show "map (elem_id st') es = ids" by simp
next
  assume "getId v sa = (a, sa')"
  then show "idCounter sa \<le> idCounter sa'" by (rule getId_frame)
next
  assume "generateId sb = (b, sb') \<and> idCounter sb' \<le> idCounter sc \<and> generateId sc = (c, sc')"
  then show "b \<noteq> c" using generateId_never_reused by blast
next
  assume "elem_id sd d \<noteq> []"
  then show "getId (VElement d) sd = (elem_id sd d, sd)" by (rule getId_element_present)
next
  assume "getId (VElement e) se = (i, se')"
  then show "getId (VElement e) se' = (i, se')" by (rule getId_twice)
qed

theorem identifier_resolution_witness:
  "distinct [1, 2, 3 :: nat] \<and> list_all (\<lambda>e. elem_id empty_dom e = []) [1, 2, 3]
   \<and> fst (getIds (map VElement [1, 2, 3]) empty_dom)
        = [''easy-aria-id-1'', ''easy-aria-id-2'', ''easy-aria-id-3'']
   \<and> distinct (fst (getIds (map VElement [1, 2, 3]) empty_dom))
   \<and> fst (generateId empty_dom) \<noteq> fst (generateId (snd (generateId empty_dom)))
   \<and> getId (VElement 1) (snd (getId (VElement 1) empty_dom)) = getId (VElement 1) empty_dom"
proof -
  let ?g = "getIds (map VElement [1, 2, 3]) empty_dom"
  let ?f = "getId (VElement 1) empty_dom"
  let ?n = "generateId empty_dom"
  note w = identifier_resolution [where es = "[1, 2, 3]" and st = empty_dom
      and ids = "fst ?g" and st' = "snd ?g"
      and sb = empty_dom and b = "fst ?n" and sb' = "snd ?n"
      and sc = "snd ?n" and c = "fst (generateId (snd ?n))" and sc' = "snd (generateId (snd ?n))"
      and e = 1 and se = empty_dom and i = "fst ?f" and se' = "snd ?f"]
  have d: "distinct [1, 2, 3 :: nat]" by simp
  have l: "list_all (\<lambda>e. elem_id empty_dom e = []) [1, 2, 3]"
    by (simp add: empty_dom_def elem_id_def)
  have v: "map (\<lambda>k. ''easy-aria-id-'' @ decimal (idCounter empty_dom + k)) [0..<length [1, 2, 3 :: nat]]
      = [''easy-aria-id-1'', ''easy-aria-id-2'', ''easy-aria-id-3'']"
    by code_simp
  have g: "?g = (fst ?g, snd ?g)" and n: "?n = (fst ?n, snd ?n)"
    and m: "generateId (snd ?n) = (fst (generateId (snd ?n)), snd (generateId (snd ?n)))"
    and f: "?f = (fst ?f, snd ?f)"
    by (rule prod.collapse [symmetric])+
  note r = mp [OF w [THEN conjunct1] conjI [OF d conjI [OF l g]]]
  note 1 = r [THEN conjunct2, THEN conjunct1]
    and 2 = r [THEN conjunct2, THEN conjunct2, THEN conjunct1, unfolded v]
  note 3 = mp [OF w [THEN conjunct2, THEN conjunct2, THEN conjunct1]
      conjI [OF n conjI [OF order_refl m]]]
  note 4 = mp [OF w [THEN conjunct2, THEN conjunct2, THEN conjunct2, THEN conjunct2] f,
      folded f]
  from d l 2 1 3 4 show ?thesis by (intro conjI)
qed

section \<open>A list of references from a collection\<close>

lemma elem_id_setAttr: "elem_id (setAttr el a s st) = elem_id st"
  by (rule ext) (simp add: elem_id_def setAttr_def)

lemma setAttr_fields:
  "idCounter (setAttr el a s st) = idCounter st"
  "attributes (setAttr el a s st) = (attributes st)(el := (attributes st el)(''aria-'' @ a \<mapsto> s))"
  by (simp_all add: setAttr_def)

lemmas setAttr_simps = elem_id_setAttr setAttr_fields

lemma set_idref_list_collection:
  assumes "getIds vs st = (ids, st1)"
  shows "set_idref_list el a (VArray vs) st
           = (Inr (), setAttr el a (join (map (elem_id st1) (elements_of vs))) st1)"
    and "vs = map VElement es \<Longrightarrow> set_idref_list el a (VNodeList es) st
           = (Inr (), setAttr el a (join (map (elem_id st1) (elements_of vs))) st1)"
  using assms getIds_ids [OF assms] by (simp_all add: set_idref_list_def)

text \<open>
  Claim C7: for every attribute that takes a list of references, \<^verbatim>\<open>set\<close> with an array
  (or a NodeList) succeeds and stores the identifiers of the elements of the collection,
  in the order of the collection and joined by one space; entries that are no elements
  are dropped; an element that had an identifier keeps it, one that had none has a fresh
  generated one, and every element has one afterwards; \<^verbatim>\<open>get\<close> returns the stored
  string. When the collection is made of distinct elements without identifier, they
  are numbered from the counter upwards. The witness is \<^verbatim>\<open>set('owns', [h1, h2, h3])\<close>.
\<close>

theorem reference_list_from_collection:
  assumes "toLowerCase name \<in> set idref_list_attributes"
    and "v = VArray vs \<or> v = VNodeList es \<and> vs = map VElement es"
    and "set_attr h el name v st = (r, st')"
  shows "r = Inr ()
       \<and> attributes st' el (''aria-'' @ toLowerCase name)
           = Some (join (map (elem_id st') (elements_of vs)))
       \<and> get h el name st' = Inr (RStr (join (map (elem_id st') (elements_of vs))))
       \<and> list_all (\<lambda>e. elem_id st' e \<noteq> []) (elements_of vs)
       \<and> (elem_id st e \<noteq> [] \<longrightarrow> elem_id st' e = elem_id st e)
       \<and> (e \<in> set (elements_of vs) \<and> elem_id st e = [] \<longrightarrow>
            (\<exists>k. idCounter st \<le> k \<and> k < idCounter st'
               \<and> elem_id st' e = ''easy-aria-id-'' @ decimal k))
       \<and> (distinct (elements_of vs) \<and> list_all (\<lambda>e. elem_id st e = []) (elements_of vs)
            \<and> vs = map VElement (elements_of vs) \<longrightarrow>
            map (elem_id st') (elements_of vs)
              = map (\<lambda>k. ''easy-aria-id-'' @ decimal (idCounter st + k))
                  [0..<length (elements_of vs)])"
proof -
  let ?a = "toLowerCase name"
  obtain ids st1 where g: "getIds vs st = (ids, st1)" by (cases "getIds vs st")
  let ?s = "join (map (elem_id st1) (elements_of vs))"
  from assms(2) set_idref_list_collection(1) [OF g, of el ?a]
    set_idref_list_collection(2) [OF g, where es = es and el = el and a = ?a]
  have "set_idref_list el ?a v st = (Inr (), setAttr el ?a ?s st1)"
    by auto
  with assms(1,3) have r: "r = Inr ()" and st': "st' = setAttr el ?a ?s st1"
    by (simp_all add: set_attr_idref_list)
  from st' have i: "elem_id st' = elem_id st1" and c: "idCounter st' = idCounter st1"
    by (simp_all add: setAttr_simps)
  from st' i have a: "attributes st' el (''aria-'' @ ?a) = Some (join (map (elem_id st') (elements_of vs)))"
    by (simp add: setAttr_simps)
  with assms(1) have "get h el name st' = Inr (RStr (join (map (elem_id st') (elements_of vs))))"
    by (simp add: get_idref_list_attribute as_is_def)
  moreover from getIds_ids [OF g] i have "list_all (\<lambda>e. elem_id st' e \<noteq> []) (elements_of vs)"
    by simp
  moreover from getIds_frame [OF g, where e' = e and k = "[]"] i
  have "elem_id st e \<noteq> [] \<longrightarrow> elem_id st' e = elem_id st e" by simp
  moreover have "e \<in> set (elements_of vs) \<and> elem_id st e = [] \<longrightarrow>
            (\<exists>k. idCounter st \<le> k \<and> k < idCounter st'
               \<and> elem_id st' e = ''easy-aria-id-'' @ decimal k)"
    using getIds_fresh [OF g, of e] i c by simp
  moreover have "distinct (elements_of vs) \<and> list_all (\<lambda>e. elem_id st e = []) (elements_of vs)
            \<and> vs = map VElement (elements_of vs) \<longrightarrow>
            map (elem_id st') (elements_of vs)
              = map (\<lambda>k. ''easy-aria-id-'' @ decimal (idCounter st + k))
                  [0..<length (elements_of vs)]"
  proof
    assume d: "distinct (elements_of vs) \<and> list_all (\<lambda>e. elem_id st e = []) (elements_of vs)
            \<and> vs = map VElement (elements_of vs)"
    with g have g': "getIds (map VElement (elements_of vs)) st = (ids, st1)" by simp
    from d getIds_sequence [OF _ _ g']
    have s: "ids = map (\<lambda>k. ''easy-aria-id-'' @ decimal (idCounter st + k))
                  [0..<length (elements_of vs)]" by simp
    then have "filter (\<lambda>i. i \<noteq> []) ids = ids" by (simp add: filter_id_conv)
    with getIds_ids [OF g] s i show "map (elem_id st') (elements_of vs)
              = map (\<lambda>k. ''easy-aria-id-'' @ decimal (idCounter st + k))
                  [0..<length (elements_of vs)]" by simp
  qed
  ultimately show ?thesis using r a by blast
qed

theorem reference_list_from_collection_witness:
  "toLowerCase ''owns'' \<in> set idref_list_attributes
   \<and> fst (set_attr plain_host 0 ''owns'' (VArray [VElement 1, VElement 2, VElement 3]) empty_dom)
        = Inr ()
   \<and> get plain_host 0 ''owns''
        (snd (set_attr plain_host 0 ''owns'' (VArray [VElement 1, VElement 2, VElement 3]) empty_dom))
        = Inr (RStr ''easy-aria-id-1 easy-aria-id-2 easy-aria-id-3'')"
proof -
  have l: "toLowerCase ''owns'' = ''owns''"
    by (simp add: toLowerCase_def lower_char_def)
  have m: "toLowerCase ''owns'' \<in> set idref_list_attributes"
    by (simp add: l idref_list_attributes_def)
  let ?v = "VArray [VElement 1, VElement 2, VElement 3]"
  let ?c = "set_attr plain_host 0 ''owns'' ?v empty_dom"
  have v: "?v = VArray [VElement 1, VElement 2, VElement 3]
      \<or> ?v = VNodeList [] \<and> [VElement 1, VElement 2, VElement 3] = map VElement []" by simp
  have c: "?c = (fst ?c, snd ?c)" by simp
  note w = reference_list_from_collection [OF m v c]
  have j: "join (map (elem_id (snd ?c)) (elements_of [VElement 1, VElement 2, VElement 3]))
      = ''easy-aria-id-1 easy-aria-id-2 easy-aria-id-3''"
    by code_simp
  note w1 = w [THEN conjunct1]
    and w3 = w [THEN conjunct2, THEN conjunct2, THEN conjunct1, unfolded j]
  show ?thesis by (rule conjI [OF m conjI [OF w1 w3]])
qed

section \<open>A failed \<^verbatim>\<open>set\<close> writes nothing\<close>

lemma set_effect_throw: "set_effect el a v st (Inl err, st) e k"
  by (simp add: set_effect_def)

lemma set_effect_setAttr:
  assumes "k = ''id'' \<or> attributes st1 e k = attributes st e k"
    and "(elem_id st e = [] \<and> e \<in> set (referenced v))
       \<or> attributes st1 e ''id'' = attributes st e ''id''"
  shows "set_effect el a v st (Inr (), setAttr el a s st1) e k"
  using assms by (auto simp: set_effect_def setAttr_fields)

lemma set_string_effect: "set_effect el a v st (set_string el a v st) e k"
  by (cases v) (simp_all add: set_string_def set_effect_throw set_effect_setAttr)

lemma set_boolean_effect: "set_effect el a v st (set_boolean T el a v st) e k"
  by (cases v) (simp_all add: set_boolean_def set_effect_throw set_effect_setAttr)

lemma set_token_effect: "set_effect el a v st (set_token T el a v st) e k"
  by (cases v) (simp_all add: set_token_def set_effect_throw set_effect_setAttr)

lemma set_number_effect: "set_effect el a v st (set_number h el a v st) e k"
  by (cases "NumberOfValue h v")
    (simp_all add: set_number_def set_effect_throw set_effect_setAttr)

lemma set_effect_getId:
  assumes "getId (VElement x) st = (i, st1)" and "referenced v = [x]"
  shows "set_effect el a v st (Inr (), setAttr el a s st1) e k"
proof (rule set_effect_setAttr)
  from getId_frame(1) [OF assms(1), of k e]
  show "k = ''id'' \<or> attributes st1 e k = attributes st e k" by blast
  from getId_frame(4) [OF assms(1), of e] assms(2)
  show "(elem_id st e = [] \<and> e \<in> set (referenced v))
       \<or> attributes st1 e ''id'' = attributes st e ''id''" by auto
qed

lemma set_effect_getIds:
  assumes "getIds vs st = (ids, st1)" and "referenced v = elements_of vs"
  shows "set_effect el a v st (Inr (), setAttr el a s st1) e k"
proof (rule set_effect_setAttr)
  note f = getIds_frame [OF assms(1), where k = k and e' = e]
  from f show "k = ''id'' \<or> attributes st1 e k = attributes st e k" by blast
  from f assms(2)
  show "(elem_id st e = [] \<and> e \<in> set (referenced v))
       \<or> attributes st1 e ''id'' = attributes st e ''id''" by auto
qed

lemma set_idref_effect: "set_effect el a v st (set_idref el a v st) e k"
proof (cases v)
  case (VElement x)
  obtain i st1 where g: "getId (VElement x) st = (i, st1)" by (cases "getId (VElement x) st")
  from VElement have "referenced v = [x]" by (simp add: referenced_def)
  with VElement g set_effect_getId [OF g this] show ?thesis
    by (simp add: set_idref_def)
qed (simp_all add: set_idref_def set_effect_throw set_effect_setAttr)

lemma set_idref_list_effect: "set_effect el a v st (set_idref_list el a v st) e k"
proof (cases v)
  case (VElement x)
  obtain i st1 where g: "getId (VElement x) st = (i, st1)" by (cases "getId (VElement x) st")
  from VElement have "referenced v = [x]" by (simp add: referenced_def)
  with VElement g set_effect_getId [OF g this] show ?thesis
    by (simp add: set_idref_list_def)
next
  case (VArray vs)
  obtain ids st1 where g: "getIds vs st = (ids, st1)" by (cases "getIds vs st")
  from VArray have "referenced v = elements_of vs" by (simp add: referenced_def)
  with VArray g set_effect_getIds [OF g this] show ?thesis
    by (simp add: set_idref_list_def)
next
  case (VNodeList es)
  obtain ids st1 where g: "getIds (map VElement es) st = (ids, st1)"
    by (cases "getIds (map VElement es) st")
  from VNodeList have "referenced v = elements_of (map VElement es)"
    by (simp add: referenced_def elements_of_map_VElement)
  with VNodeList g set_effect_getIds [OF g this] show ?thesis
    by (simp add: set_idref_list_def)
qed (simp_all add: set_idref_list_def set_effect_throw set_effect_setAttr)

lemma set_attr_effect:
  "set_effect el (toLowerCase name) v st (set_attr h el name v st) e k"
proof (cases "toLowerCase name \<in> set aria_attributes")
  case True
  then show ?thesis
  proof (cases rule: aria_cases)
    case 1 then show ?thesis by (simp add: set_attr_string set_string_effect)
  next
    case 2 then show ?thesis by (simp add: set_attr_idref set_idref_effect)
  next
    case 3 then show ?thesis by (simp add: set_attr_idref_list set_idref_list_effect)
  next
    case 4 then show ?thesis by (simp add: set_attr_boolean_only set_boolean_effect)
  next
    case 5 then show ?thesis by (simp add: set_attr_boolean_undefined set_boolean_effect)
  next
    case 6 then show ?thesis by (simp add: set_attr_boolean_mixed set_boolean_effect)
  next
    case 7 then show ?thesis
      using set_boolean_effect [of el "''current''"] by (simp add: set_attr_current)
  next
    case 8 then show ?thesis
      using set_boolean_effect [of el "''haspopup''"] by (simp add: set_attr_haspopup)
  next
    case 9 then show ?thesis
      using set_boolean_effect [of el "''invalid''"] by (simp add: set_attr_invalid)
  next
    case 10 then show ?thesis
      using set_token_effect [of el "''autocomplete''"] by (simp add: set_attr_autocomplete)
  next
    case 11 then show ?thesis
      using set_token_effect [of el "''dropeffect''"] by (simp add: set_attr_dropeffect)
  next
    case 12 then show ?thesis
      using set_token_effect [of el "''live''"] by (simp add: set_attr_live)
  next
    case 13 then show ?thesis
      using set_token_effect [of el "''orientation''"] by (simp add: set_attr_orientation)
  next
    case 14 then show ?thesis
      using set_token_effect [of el "''relevant''"] by (simp add: set_attr_relevant)
  next
    case 15 then show ?thesis
      using set_token_effect [of el "''sort''"] by (simp add: set_attr_sort)
  next
    case 16 then show ?thesis by (simp add: set_attr_number set_number_effect)
  qed
next
  case False
  then show ?thesis by (simp add: set_attr_unknown set_effect_throw)
qed

lemma toLowerCase_sort: "toLowerCase ''sort'' = ''sort''"
  by (simp add: toLowerCase_def lower_char_def)

lemma set_sort_upwards: "set_attr h el ''sort'' (VStr ''upwards'') st = (Inl InvalidValue, st)"
  by (simp add: set_attr_sort toLowerCase_sort set_token_def sort_tokens_def)

text \<open>
  Claim C4 says that a successful \<^verbatim>\<open>set\<close> changes the store of the wrapped element by
  exactly one write, of the key \<^verbatim>\<open>aria-<name>\<close>. It does not when the wrapped element is
  itself the value and has no identifier: \<^verbatim>\<open>aria(el).set('labelledby', el)\<close> on an
  element without attributes gives it an \<^verbatim>\<open>id\<close> as well as \<^verbatim>\<open>aria-labelledby\<close>.
\<close>

theorem set_labelledby_self_writes_id:
  "fst (set_attr plain_host 0 ''labelledby'' (VElement 0) empty_dom) = Inr ()
   \<and> attributes empty_dom 0 ''id'' = None
   \<and> attributes (snd (set_attr plain_host 0 ''labelledby'' (VElement 0) empty_dom)) 0 ''id''
       = Some ''easy-aria-id-1''
   \<and> attributes (snd (set_attr plain_host 0 ''labelledby'' (VElement 0) empty_dom)) 0
       ''aria-labelledby'' = Some ''easy-aria-id-1''"
  by code_simp

text \<open>
  Claim C4 as amended: when \<^verbatim>\<open>set\<close> fails, the document is as it was before the call (no
  attribute written or removed). When it succeeds, the key \<^verbatim>\<open>aria-<name>\<close> of the wrapped
  element has a value, and the only other changes are \<^verbatim>\<open>id\<close> attributes of elements that
  the value refers to and that had no identifier (the wrapped element included, when it
  is one of them): every other attribute of every element is as before, and so is the
  \<^verbatim>\<open>id\<close> of every element that had an identifier or that the value does not refer to.
  \<^verbatim>\<open>set('sort', 'upwards')\<close> fails with \<open>InvalidValue\<close> and changes nothing.
\<close>

theorem set_effect_on_store:
  "(fst (set_attr h el name v st) \<noteq> Inr () \<longrightarrow> snd (set_attr h el name v st) = st)
   \<and> (fst (set_attr h el name v st) = Inr () \<longrightarrow>
        attributes (snd (set_attr h el name v st)) el (''aria-'' @ toLowerCase name) \<noteq> None
        \<and> (k \<noteq> ''id'' \<and> \<not> (e = el \<and> k = ''aria-'' @ toLowerCase name) \<longrightarrow>
             attributes (snd (set_attr h el name v st)) e k = attributes st e k)
        \<and> (elem_id st e \<noteq> [] \<or> e \<notin> set (referenced v) \<longrightarrow>
             attributes (snd (set_attr h el name v st)) e ''id'' = attributes st e ''id''))
   \<and> set_attr h el ''sort'' (VStr ''upwards'') st = (Inl InvalidValue, st)"
  using set_attr_effect [of el name v st h e k] set_sort_upwards [of h el st]
  by (cases "fst (set_attr h el name v st)") (auto simp: set_effect_def)

theorem set_effect_on_store_witness:
  "fst (set_attr plain_host 0 ''sort'' (VStr ''upwards'') empty_dom) \<noteq> Inr ()
   \<and> snd (set_attr plain_host 0 ''sort'' (VStr ''upwards'') empty_dom) = empty_dom
   \<and> fst (set_attr plain_host 0 ''labelledby'' (VElement 1) empty_dom) = Inr ()
   \<and> attributes (snd (set_attr plain_host 0 ''labelledby'' (VElement 1) empty_dom)) 0
       ''aria-labelledby'' \<noteq> None
   \<and> attributes (snd (set_attr plain_host 0 ''labelledby'' (VElement 1) empty_dom)) 0 ''id''
       = attributes empty_dom 0 ''id''
   \<and> attributes (snd (set_attr plain_host 0 ''labelledby'' (VElement 1) empty_dom)) 1 ''class''
       = attributes empty_dom 1 ''class''"
proof -
  let ?u = "set_attr plain_host 0 ''sort'' (VStr ''upwards'') empty_dom"
  let ?l = "set_attr plain_host 0 ''labelledby'' (VElement 1) empty_dom"
  have f: "fst ?u \<noteq> Inr ()" by (simp add: set_sort_upwards)
  have s: "fst ?l = Inr ()" by code_simp
  have l: "''aria-'' @ toLowerCase ''labelledby'' = ''aria-labelledby''"
    by (simp add: toLowerCase_def lower_char_def)
  have r: "elem_id empty_dom 0 \<noteq> [] \<or> 0 \<notin> set (referenced (VElement 1))"
    by (simp add: referenced_def)
  have c: "''class'' \<noteq> ''id'' \<and> \<not> (1 = (0 :: nat) \<and> ''class'' = ''aria-'' @ toLowerCase ''labelledby'')"
    by simp
  note a = mp [OF set_effect_on_store [of plain_host 0 "''sort''" "VStr ''upwards''" empty_dom,
        THEN conjunct1] f]
  note b = mp [OF set_effect_on_store [of plain_host 0 "''labelledby''" "VElement 1" empty_dom
        "''class''" 1, THEN conjunct2, THEN conjunct1] s]
  note d = mp [OF set_effect_on_store [of plain_host 0 "''labelledby''" "VElement 1" empty_dom
        "''class''" 0, THEN conjunct2, THEN conjunct1] s]
  note b1 = b [THEN conjunct1, unfolded l]
    and b2 = mp [OF b [THEN conjunct2, THEN conjunct1] c]
    and d3 = mp [OF d [THEN conjunct2, THEN conjunct2] r]
  from f a s b1 d3 b2 show ?thesis by (intro conjI)
qed

section \<open>Reading back what was set\<close>

lemma set_string_read:
  "set_string el a v st = (Inr (), st') \<Longrightarrow>
   as_is (attributes st' el (''aria-'' @ a)) = canonical_value v st'"
  by (cases v) (auto simp: set_string_def as_is_def canonical_value_def setAttr_simps)

lemma set_token_read:
  "set_token T el a v st = (Inr (), st') \<Longrightarrow>
   get_token T (attributes st' el (''aria-'' @ a)) = canonical_value v st'"
  by (cases v)
    (auto simp: set_token_def get_token_def canonical_value_def setAttr_simps split: if_splits)

lemma set_boolean_read:
  "set_boolean T el a v st = (Inr (), st') \<Longrightarrow> ''true'' \<notin> set T \<Longrightarrow> ''false'' \<notin> set T \<Longrightarrow>
   get_boolean T (attributes st' el (''aria-'' @ a)) = canonical_value v st'"
  by (cases v)
    (auto simp: set_boolean_def get_boolean_def canonical_value_def setAttr_simps
      BooleanToString_def split: if_splits)

lemma set_number_read:
  assumes "set_number h el a v st = (Inr (), st')" and "reads_back h v"
  shows "get_number h (attributes st' el (''aria-'' @ a))
     = (case NumberOfValue h v of Some n \<Rightarrow> RNum n | None \<Rightarrow> RNull)"
proof (cases "NumberOfValue h v")
  case None
  with assms show ?thesis by (simp add: set_number_def)
next
  case (Some n)
  with assms(2) have p: "StringToNumber h (NumberToString h n) = n"
    by (simp add: reads_back_def)
  from Some assms(1) have n: "n \<noteq> NaN" and s: "st' = setAttr el a (NumberToString h n) st"
    by (auto simp: set_number_def split: if_splits)
  from s have "attributes st' el (''aria-'' @ a) = Some (NumberToString h n)"
    by (simp add: setAttr_simps)
  with Some n p show ?thesis
    by (simp add: get_number_def NumberOfAttribute_def)
qed

lemma plain_number_reads_back:
  "NumberOfValue h v = Some n \<Longrightarrow> plain_number n \<Longrightarrow> reads_back h v"
  by (simp add: reads_back_def number_round_trip)

lemma set_idref_read:
  assumes "set_idref el a v st = (Inr (), st')"
  shows "as_is (attributes st' el (''aria-'' @ a)) = canonical_value v st'"
proof (cases v)
  case (VElement e)
  obtain i st1 where g: "getId (VElement e) st = (i, st1)" by (cases "getId (VElement e) st")
  with VElement assms have "st' = setAttr el a i st1" by (simp add: set_idref_def)
  with getId_element_result(1) [OF g] VElement show ?thesis
    by (simp add: as_is_def canonical_value_def setAttr_simps)
qed (use assms in \<open>auto simp: set_idref_def as_is_def canonical_value_def setAttr_simps\<close>)

lemma set_idref_list_read:
  assumes "set_idref_list el a v st = (Inr (), st')"
  shows "as_is (attributes st' el (''aria-'' @ a)) = canonical_value v st'"
proof (cases v)
  case (VElement e)
  obtain i st1 where g: "getId (VElement e) st = (i, st1)" by (cases "getId (VElement e) st")
  with VElement assms have "st' = setAttr el a i st1" by (simp add: set_idref_list_def)
  with getId_element_result(1) [OF g] VElement show ?thesis
    by (simp add: as_is_def canonical_value_def setAttr_simps)
next
  case (VArray vs)
  obtain ids st1 where g: "getIds vs st = (ids, st1)" by (cases "getIds vs st")
  from VArray assms set_idref_list_collection(1) [OF g, of el a]
  have "st' = setAttr el a (join (map (elem_id st1) (elements_of vs))) st1" by simp
  with VArray show ?thesis
    by (simp add: as_is_def canonical_value_def setAttr_simps)
next
  case (VNodeList es)
  obtain ids st1 where g: "getIds (map VElement es) st = (ids, st1)"
    by (cases "getIds (map VElement es) st")
  from VNodeList assms set_idref_list_collection(2) [OF g refl, of el a]
  have "st' = setAttr el a (join (map (elem_id st1) es)) st1"
    by (simp add: elements_of_map_VElement)
  with VNodeList show ?thesis
    by (simp add: as_is_def canonical_value_def setAttr_simps)
qed (use assms in \<open>auto simp: set_idref_list_def as_is_def canonical_value_def setAttr_simps\<close>)

lemma tokens_not_boolean:
  "''true'' \<notin> set undefined_tokens" "''false'' \<notin> set undefined_tokens"
  "''true'' \<notin> set mixed_tokens" "''false'' \<notin> set mixed_tokens"
  "''true'' \<notin> set current_tokens" "''false'' \<notin> set current_tokens"
  "''true'' \<notin> set haspopup_tokens" "''false'' \<notin> set haspopup_tokens"
  "''true'' \<notin> set invalid_tokens" "''false'' \<notin> set invalid_tokens"
  by (simp_all add: undefined_tokens_def mixed_tokens_def current_tokens_def
      haspopup_tokens_def invalid_tokens_def)

lemma singles_not_number:
  "''current'' \<notin> set number_attributes" "''haspopup'' \<notin> set number_attributes"
  "''invalid'' \<notin> set number_attributes" "''autocomplete'' \<notin> set number_attributes"
  "''dropeffect'' \<notin> set number_attributes" "''live'' \<notin> set number_attributes"
  "''orientation'' \<notin> set number_attributes" "''relevant'' \<notin> set number_attributes"
  "''sort'' \<notin> set number_attributes"
  by (simp_all add: number_attributes_def)

text \<open>
  Claim C3: for every attribute name and every value that \<^verbatim>\<open>set\<close> accepts, \<^verbatim>\<open>get\<close> right
  after \<^verbatim>\<open>set\<close> returns the canonical form of the value: booleans and tokens come back
  as they were given, and a number comes back as the number the value denotes, the host
  reading back the string it printed for it (which holds for the infinities and for
  every integer a double holds exactly, by \<open>plain_number_reads_back\<close>). The witness is
  \<^verbatim>\<open>set('colcount', '007')\<close>, which stores \<^verbatim>\<open>"7"\<close> and reads back \<open>7\<close>, and
  \<^verbatim>\<open>set('posinset', 32)\<close>.
\<close>

theorem get_after_set:
  assumes "set_attr h el name v st = (Inr (), st')"
    and "toLowerCase name \<in> set number_attributes \<longrightarrow> reads_back h v"
  shows "get h el name st' = Inr (canonical h (toLowerCase name) v st')"
proof (cases "toLowerCase name \<in> set aria_attributes")
  case False
  with assms(1) show ?thesis by (simp add: set_attr_unknown)
next
  case True
  then show ?thesis
  proof (cases rule: aria_cases)
    case 1
    with assms(1) set_string_read [of el "toLowerCase name" v st st'] show ?thesis
      by (simp add: set_attr_string get_string_attribute canonical_def string_attributes_apart)
  next
    case 2
    with assms(1) set_idref_read [of el "toLowerCase name" v st st'] show ?thesis
      by (simp add: set_attr_idref get_idref_attribute canonical_def idref_attributes_apart)
  next
    case 3
    with assms(1) set_idref_list_read [of el "toLowerCase name" v st st'] show ?thesis
      by (simp add: set_attr_idref_list get_idref_list_attribute canonical_def
          idref_list_attributes_apart)
  next
    case 4
    with assms(1) set_boolean_read [of "[]" el "toLowerCase name" v st st'] show ?thesis
      by (simp add: set_attr_boolean_only get_boolean_only_attribute canonical_def
          boolean_only_attributes_apart)
  next
    case 5
    with assms(1) set_boolean_read [of undefined_tokens el "toLowerCase name" v st st']
    show ?thesis
      by (simp add: set_attr_boolean_undefined get_boolean_undefined_attribute canonical_def
          boolean_undefined_attributes_apart tokens_not_boolean)
  next
    case 6
    with assms(1) set_boolean_read [of mixed_tokens el "toLowerCase name" v st st']
    show ?thesis
      by (simp add: set_attr_boolean_mixed get_boolean_mixed_attribute canonical_def
          boolean_mixed_attributes_apart tokens_not_boolean)
  next
    case 7
    with assms(1) set_boolean_read [of current_tokens el "''current''" v st st'] show ?thesis
      by (simp add: set_attr_current get_current canonical_def singles_not_number
          tokens_not_boolean)
  next
    case 8
    with assms(1) set_boolean_read [of haspopup_tokens el "''haspopup''" v st st'] show ?thesis
      by (simp add: set_attr_haspopup get_haspopup canonical_def singles_not_number
          tokens_not_boolean)
  next
    case 9
    with assms(1) set_boolean_read [of invalid_tokens el "''invalid''" v st st'] show ?thesis
      by (simp add: set_attr_invalid get_invalid canonical_def singles_not_number
          tokens_not_boolean)
  next
    case 10
    with assms(1) set_token_read [of autocomplete_tokens el "''autocomplete''" v st st']
    show ?thesis
      by (simp add: set_attr_autocomplete get_autocomplete canonical_def singles_not_number)
  next
    case 11
    with assms(1) set_token_read [of dropeffect_tokens el "''dropeffect''" v st st']
    show ?thesis
      by (simp add: set_attr_dropeffect get_dropeffect canonical_def singles_not_number)
  next
    case 12
    with assms(1) set_token_read [of live_tokens el "''live''" v st st'] show ?thesis
      by (simp add: set_attr_live get_live canonical_def singles_not_number)
  next
    case 13
    with assms(1) set_token_read [of orientation_tokens el "''orientation''" v st st']
    show ?thesis
      by (simp add: set_attr_orientation get_orientation canonical_def singles_not_number)
  next
    case 14
    with assms(1) set_token_read [of relevant_tokens el "''relevant''" v st st'] show ?thesis
      by (simp add: set_attr_relevant get_relevant canonical_def singles_not_number)
  next
    case 15
    with assms(1) set_token_read [of sort_tokens el "''sort''" v st st'] show ?thesis
      by (simp add: set_attr_sort get_sort canonical_def singles_not_number)
  next
    case 16
    with assms set_number_read [of h el "toLowerCase name" v st st'] show ?thesis
      by (simp add: set_attr_number get_number_attribute canonical_def)
  qed
qed

theorem get_after_set_witness:
  "set_attr plain_host 0 ''colcount'' (VStr ''007'') empty_dom
     = (Inr (), setAttr 0 ''colcount'' ''7'' empty_dom)
   \<and> reads_back plain_host (VStr ''007'')
   \<and> get plain_host 0 ''colcount'' (setAttr 0 ''colcount'' ''7'' empty_dom) = Inr (RNum (Fin 7))
   \<and> set_attr plain_host 0 ''posinset'' (VNum (Fin 32)) empty_dom
     = (Inr (), setAttr 0 ''posinset'' ''32'' empty_dom)
   \<and> reads_back plain_host (VNum (Fin 32))
   \<and> get plain_host 0 ''posinset'' (setAttr 0 ''posinset'' ''32'' empty_dom) = Inr (RNum (Fin 32))"
proof -
  have l: "toLowerCase ''colcount'' = ''colcount''" "toLowerCase ''posinset'' = ''posinset''"
    by (simp_all add: toLowerCase_def lower_char_def)
  have m: "''colcount'' \<in> set number_attributes" "''posinset'' \<in> set number_attributes"
    by (simp_all add: number_attributes_def)
  have n7: "NumberOfValue plain_host (VStr ''007'') = Some (Fin 7)"
    by (simp add: NumberOfValue_def StringToNumber_def trim_def StrWhiteSpaceChar_def
        StrDecimalInteger_def DecimalDigits_def is_digit_def digit_value_def safe_integer_def)
  have n32: "NumberOfValue plain_host (VNum (Fin 32)) = Some (Fin 32)"
    by (simp add: NumberOfValue_def)
  have d: "decimal 7 = ''7''" "decimal 32 = ''32''" by code_simp+
  have s7: "NumberToString plain_host (Fin 7) = ''7''"
    and s32: "NumberToString plain_host (Fin 32) = ''32''"
    by (simp_all add: NumberToString_def safe_integer_def show_int_def d)
  have p: "plain_number (Fin 7)" "plain_number (Fin 32)"
    by (simp_all add: plain_number_def safe_integer_def)
  have r7: "reads_back plain_host (VStr ''007'')"
    using n7 p(1) by (rule plain_number_reads_back)
  have r32: "reads_back plain_host (VNum (Fin 32))"
    using n32 p(2) by (rule plain_number_reads_back)
  have c7: "set_attr plain_host 0 ''colcount'' (VStr ''007'') empty_dom
     = (Inr (), setAttr 0 ''colcount'' ''7'' empty_dom)"
    using m(1) by (simp add: set_attr_number l set_number_def n7 s7)
  have c32: "set_attr plain_host 0 ''posinset'' (VNum (Fin 32)) empty_dom
     = (Inr (), setAttr 0 ''posinset'' ''32'' empty_dom)"
    using m(2) by (simp add: set_attr_number l set_number_def n32 s32)
  from get_after_set [OF c7] r7 m(1)
  have g7: "get plain_host 0 ''colcount'' (setAttr 0 ''colcount'' ''7'' empty_dom)
      = Inr (RNum (Fin 7))"
    by (simp add: l canonical_def n7)
  from get_after_set [OF c32] r32 m(2)
  have g32: "get plain_host 0 ''posinset'' (setAttr 0 ''posinset'' ''32'' empty_dom)
      = Inr (RNum (Fin 32))"
    by (simp add: l canonical_def n32)
  from c7 r7 g7 c32 r32 g32 show ?thesis by (intro conjI)
qed

end
